theory Spec2Isabelle
  imports Complex_Main "HOL-Library.Multiset" "HOL-Library.AList"
begin

section \<open>Values read from the stimulus file\<close>

text \<open>
  A Python \<^verbatim>\<open>float\<close> is an IEEE double: a finite value (a real number on the grid of the
  doubles), an infinity with its sign (\<open>True\<close> for the negative one), or not a number. The two
  zeros are not told apart: nothing in the program divides by one or prints its sign.
\<close>

datatype double = Finite real | Infinity bool | NaN

text \<open>
  The stimulus file is parsed by Python's \<^verbatim>\<open>json\<close> module, so every field of a stimulus is
  one of the values below: \<^verbatim>\<open>None\<close>, a \<^verbatim>\<open>bool\<close>, an \<^verbatim>\<open>int\<close>, a \<^verbatim>\<open>float\<close>, a \<^verbatim>\<open>str\<close>, a
  \<^verbatim>\<open>list\<close> or a \<^verbatim>\<open>dict\<close> with string keys. A string is the list of its code points, which
  are taken to be below 256. An object keeps its keys in file order, as a Python \<^verbatim>\<open>dict\<close>
  does, and is an association list with distinct keys.
\<close>

datatype json =
    JNull
  | JBool bool
  | JInt int
  | JFloat double
  | JStr string
  | JArr "json list"
  | JObj "(string \<times> json) list"

type_synonym stimulus = "(string \<times> json) list"

datatype error =
    FileNotFoundError
  | JSONDecodeError
  | ValueError
  | IndexError
  | KeyError
  | TypeError
  | UnboundLocalError
  | OverflowError

text \<open>\<^verbatim>\<open>d.get(k, default)\<close>: the default is used only when the key is absent.\<close>

definition dict_get :: "stimulus \<Rightarrow> string \<Rightarrow> json \<Rightarrow> json" where
  "dict_get d k dflt = (case map_of d k of None \<Rightarrow> dflt | Some v \<Rightarrow> v)"

text \<open>\<^verbatim>\<open>v[k]\<close> with a string key: only an object can be subscripted that way.\<close>

fun subscript :: "json \<Rightarrow> string \<Rightarrow> error + json" where
  "subscript (JObj kv) k = (case map_of kv k of None \<Rightarrow> Inl KeyError | Some v \<Rightarrow> Inr v)"
| "subscript _ k = Inl TypeError"

text \<open>
  \<^verbatim>\<open>container[index]\<close> in general. A list or a string takes an \<^verbatim>\<open>int\<close> (or a \<^verbatim>\<open>bool\<close>, which
  is one), negative indices counting from the end; a dictionary takes any hashable key, and
  its keys are strings.
\<close>

definition list_index :: "'a list \<Rightarrow> int \<Rightarrow> error + 'a" where
  "list_index xs i =
     (if 0 \<le> i
      then (if i < int (length xs) then Inr (xs ! nat i) else Inl IndexError)
      else (if - int (length xs) \<le> i then Inr (xs ! nat (int (length xs) + i))
            else Inl IndexError))"

fun py_getitem :: "json \<Rightarrow> json \<Rightarrow> error + json" where
  "py_getitem (JArr xs) (JInt i) = list_index xs i"
| "py_getitem (JArr xs) (JBool b) = list_index xs (if b then 1 else 0)"
| "py_getitem (JArr xs) _ = Inl TypeError"
| "py_getitem (JStr cs) (JInt i) = map_sum id (\<lambda>c. JStr [c]) (list_index cs i)"
| "py_getitem (JStr cs) (JBool b) =
     map_sum id (\<lambda>c. JStr [c]) (list_index cs (if b then 1 else 0))"
| "py_getitem (JStr cs) _ = Inl TypeError"
| "py_getitem (JObj kv) (JStr k) =
     (case map_of kv k of None \<Rightarrow> Inl KeyError | Some v \<Rightarrow> Inr v)"
| "py_getitem (JObj kv) (JArr _) = Inl TypeError"
| "py_getitem (JObj kv) (JObj _) = Inl TypeError"
| "py_getitem (JObj kv) _ = Inl KeyError"
| "py_getitem _ _ = Inl TypeError"

text \<open>The values a \<^verbatim>\<open>for\<close> loop draws from a parsed value.\<close>

fun py_iter :: "json \<Rightarrow> error + json list" where
  "py_iter (JArr xs) = Inr xs"
| "py_iter (JStr cs) = Inr (map (\<lambda>c. JStr [c]) cs)"
| "py_iter (JObj kv) = Inr (map (\<lambda>p. JStr (fst p)) kv)"
| "py_iter _ = Inl TypeError"

text \<open>Python's truth value of a parsed value, as used by \<^verbatim>\<open>not v\<close> and \<^verbatim>\<open>if v\<close>.\<close>

fun truthy :: "json \<Rightarrow> bool" where
  "truthy JNull = False"
| "truthy (JBool b) = b"
| "truthy (JInt i) = (i \<noteq> 0)"
| "truthy (JFloat d) = (d \<noteq> Finite 0)"
| "truthy (JStr s) = (s \<noteq> [])"
| "truthy (JArr xs) = (xs \<noteq> [])"
| "truthy (JObj kv) = (kv \<noteq> [])"

text \<open>\<^verbatim>\<open>xs[:n]\<close>: a negative bound counts from the end of the list.\<close>

definition py_slice_to :: "'a list \<Rightarrow> int \<Rightarrow> 'a list" where
  "py_slice_to xs n =
     (if n < 0 then take (nat (int (length xs) + n)) xs else take (nat n) xs)"

section \<open>Trials (experience\_pygame\_3d.py)\<close>

record trial =
  stimulus :: stimulus
  rotation_enabled :: bool
  is_mirror :: json

record TrialResult =
  trial_number :: nat
  stimulus_id :: json
  is_mirror :: json
  user_response :: bool
  response_time :: real
  is_correct :: json
  rotation_enabled :: bool
  disparity :: double
  initial_angle :: json

text \<open>
  Rounding to the nearest double, ties to the even mantissa: the grid near \<open>r\<close> has the
  spacing \<open>2\<close> to the power \<open>ulp_exponent r\<close> (53 bits of mantissa, the smallest spacing being
  that of the subnormal numbers), and a result of magnitude \<open>2 ^ 1024\<close> or more is an
  infinity.
\<close>

definition round_half_even :: "real \<Rightarrow> int" where
  "round_half_even q =
     (let f = \<lfloor>q\<rfloor>; d = q - of_int f
      in if d < 1/2 then f else if 1/2 < d then f + 1 else if even f then f else f + 1)"

definition ulp_exponent :: "real \<Rightarrow> int" where
  "ulp_exponent r = max (\<lfloor>log 2 \<bar>r\<bar>\<rfloor> - 52) (- 1074)"

definition round_double :: "real \<Rightarrow> double" where
  "round_double r =
     (if r = 0 then Finite 0
      else
        (let e = ulp_exponent r;
             v = of_int (round_half_even (r / 2 powr of_int e)) * 2 powr of_int e
         in if 2 ^ 1024 \<le> \<bar>v\<bar> then Infinity (r < 0) else Finite v))"

text \<open>
  The arithmetic of \<^verbatim>\<open>float\<close>: \<^verbatim>\<open>*\<close> and \<^verbatim>\<open>+\<close> never raise, \<^verbatim>\<open>math.sqrt\<close> raises
  \<^verbatim>\<open>ValueError\<close> on a negative argument.
\<close>

fun float_mul :: "double \<Rightarrow> double \<Rightarrow> double" where
  "float_mul NaN y = NaN"
| "float_mul x NaN = NaN"
| "float_mul (Infinity s) (Infinity t) = Infinity (s \<noteq> t)"
| "float_mul (Infinity s) (Finite b) = (if b = 0 then NaN else Infinity (s \<noteq> (b < 0)))"
| "float_mul (Finite a) (Infinity t) = (if a = 0 then NaN else Infinity ((a < 0) \<noteq> t))"
| "float_mul (Finite a) (Finite b) = round_double (a * b)"

fun float_add :: "double \<Rightarrow> double \<Rightarrow> double" where
  "float_add NaN y = NaN"
| "float_add x NaN = NaN"
| "float_add (Infinity s) (Infinity t) = (if s = t then Infinity s else NaN)"
| "float_add (Infinity s) (Finite b) = Infinity s"
| "float_add (Finite a) (Infinity t) = Infinity t"
| "float_add (Finite a) (Finite b) = round_double (a + b)"

fun float_sqrt :: "double \<Rightarrow> error + double" where
  "float_sqrt NaN = Inr NaN"
| "float_sqrt (Infinity neg) = (if neg then Inl ValueError else Inr (Infinity False))"
| "float_sqrt (Finite a) = (if a < 0 then Inl ValueError else Inr (round_double (sqrt a)))"

text \<open>\<^verbatim>\<open>d >= 0\<close> on a \<^verbatim>\<open>float\<close>.\<close>

fun ge_zero :: "double \<Rightarrow> bool" where
  "ge_zero (Finite v) = (0 \<le> v)"
| "ge_zero (Infinity neg) = (\<not> neg)"
| "ge_zero NaN = False"

text \<open>
  A Python number is an \<^verbatim>\<open>int\<close> or a \<^verbatim>\<open>float\<close>. \<^verbatim>\<open>float(n)\<close> rounds an \<^verbatim>\<open>int\<close> to the nearest
  double and raises \<^verbatim>\<open>OverflowError\<close> when there is none; mixed arithmetic converts the
  \<^verbatim>\<open>int\<close> operand first, and \<^verbatim>\<open>math.sqrt\<close> converts its argument.
\<close>

datatype pynum = PyInt int | PyFloat double

definition to_float :: "int \<Rightarrow> error + double" where
  "to_float n =
     (case round_double (of_int n) of
        Infinity neg \<Rightarrow> Inl OverflowError
      | d \<Rightarrow> Inr d)"

fun py_mul :: "pynum \<Rightarrow> pynum \<Rightarrow> error + pynum" where
  "py_mul (PyInt a) (PyInt b) = Inr (PyInt (a * b))"
| "py_mul (PyInt a) (PyFloat y) =
     (case to_float a of Inl e \<Rightarrow> Inl e | Inr x \<Rightarrow> Inr (PyFloat (float_mul x y)))"
| "py_mul (PyFloat x) (PyInt b) =
     (case to_float b of Inl e \<Rightarrow> Inl e | Inr y \<Rightarrow> Inr (PyFloat (float_mul x y)))"
| "py_mul (PyFloat x) (PyFloat y) = Inr (PyFloat (float_mul x y))"

fun py_add :: "pynum \<Rightarrow> pynum \<Rightarrow> error + pynum" where
  "py_add (PyInt a) (PyInt b) = Inr (PyInt (a + b))"
| "py_add (PyInt a) (PyFloat y) =
     (case to_float a of Inl e \<Rightarrow> Inl e | Inr x \<Rightarrow> Inr (PyFloat (float_add x y)))"
| "py_add (PyFloat x) (PyInt b) =
     (case to_float b of Inl e \<Rightarrow> Inl e | Inr y \<Rightarrow> Inr (PyFloat (float_add x y)))"
| "py_add (PyFloat x) (PyFloat y) = Inr (PyFloat (float_add x y))"

fun math_sqrt :: "pynum \<Rightarrow> error + double" where
  "math_sqrt (PyInt n) = (case to_float n of Inl e \<Rightarrow> Inl e | Inr d \<Rightarrow> float_sqrt d)"
| "math_sqrt (PyFloat d) = float_sqrt d"

text \<open>
  \<^verbatim>\<open>calculate_angular_disparity(initial_angle_y, user_rot_x, user_rot_y)\<close>. The first argument
  is whatever \<^verbatim>\<open>rotation['y']\<close> holds; the body never reads it. The two squares are computed
  left to right, then their sum, then its square root.
\<close>

definition calculate_angular_disparity :: "'a \<Rightarrow> pynum \<Rightarrow> pynum \<Rightarrow> error + double" where
  "calculate_angular_disparity initial_angle_y user_rot_x user_rot_y =
     (case py_mul user_rot_x user_rot_x of
        Inl e \<Rightarrow> Inl e
      | Inr xx \<Rightarrow>
          (case py_mul user_rot_y user_rot_y of
             Inl e \<Rightarrow> Inl e
           | Inr yy \<Rightarrow>
               (case py_add xx yy of
                  Inl e \<Rightarrow> Inl e
                | Inr total_rotation_squared \<Rightarrow> math_sqrt total_rotation_squared)))"

text \<open>
  \<^verbatim>\<open>generate_trial_set(stimuli, n_with_rotation, n_without_rotation)\<close>. The outcome of
  \<^verbatim>\<open>random.shuffle\<close> is the parameter \<open>shuffle\<close>: the rearrangement the generator picks for
  the list it is given. The shuffle runs on both paths, after the fallback if that is taken.
\<close>

definition is_valid :: "stimulus \<Rightarrow> bool" where
  "is_valid s = (dict_get s ''is_mirror'' JNull \<noteq> JNull)"

definition make_trial :: "int \<Rightarrow> nat \<times> stimulus \<Rightarrow> trial" where
  "make_trial n_with_rotation p =
     (case p of (i, s) \<Rightarrow>
        \<lparr>trial.stimulus = s,
         trial.rotation_enabled = (int i < n_with_rotation),
         trial.is_mirror = dict_get s ''is_mirror'' (JBool False)\<rparr>)"

definition generate_trial_set ::
  "(stimulus list \<Rightarrow> stimulus list) \<Rightarrow> stimulus list \<Rightarrow> int \<Rightarrow> int \<Rightarrow> trial list" where
  "generate_trial_set shuffle stimuli n_with_rotation n_without_rotation =
     (let valid_stimuli = filter is_valid stimuli;
          valid_stimuli =
            (if int (length valid_stimuli) < n_with_rotation + n_without_rotation
             then py_slice_to stimuli (n_with_rotation + n_without_rotation)
             else valid_stimuli);
          valid_stimuli = shuffle valid_stimuli
      in map (make_trial n_with_rotation)
           (enumerate 0 (py_slice_to valid_stimuli (n_with_rotation + n_without_rotation))))"

section \<open>The session loop of run\_experiment\_3d\<close>

datatype key = K_ESCAPE | K_s | K_d | K_other

datatype event =
    QUIT
  | KEYDOWN key
  | MOUSEBUTTONDOWN int "int \<times> int"
  | MOUSEBUTTONUP int "int \<times> int"
  | MOUSEMOTION "int \<times> int"
  | OTHER_EVENT

text \<open>
  The local variables of \<^verbatim>\<open>run_experiment_3d\<close> that the event handlers read or write.
  \<open>rotation\<close> is bound by the rendering part of a frame only, so it is unbound (\<open>None\<close>)
  until the first frame has been drawn.
\<close>

record session =
  current_trial :: nat
  results :: "TrialResult list"
  start_time :: real
  response_rot_x :: real
  response_rot_y :: real
  mouse_dragging :: bool
  last_mouse_pos :: "(int \<times> int) option"
  current_trial_data :: trial
  rotation_enabled :: bool
  rotation :: "json option"
  running :: bool

text \<open>The state before the loop; \<^verbatim>\<open>trials[0]\<close> raises on an empty plan. \<open>t0\<close> is the clock.\<close>

definition init_session :: "trial list \<Rightarrow> real \<Rightarrow> error + session" where
  "init_session trials t0 =
     (case trials of
        [] \<Rightarrow> Inl IndexError
      | tr # _ \<Rightarrow>
          Inr \<lparr>current_trial = 0, results = [], start_time = t0,
               response_rot_x = 0, response_rot_y = 0,
               mouse_dragging = False, last_mouse_pos = None,
               current_trial_data = tr,
               rotation_enabled = trial.rotation_enabled tr,
               rotation = None, running = True\<rparr>)"

text \<open>
  The two response branches (\<^verbatim>\<open>K_s\<close>, \<^verbatim>\<open>K_d\<close>) are the same code up to \<^verbatim>\<open>is_correct\<close> and
  \<^verbatim>\<open>user_response\<close>; \<open>different\<close> selects the branch. \<open>now\<close> is the clock read for the
  response time and \<open>now'\<close> the clock read when the next trial starts. The second component
  of the result tells whether the \<^verbatim>\<open>for\<close> loop over the frame's events is left by
  \<^verbatim>\<open>break\<close>. The accumulators are floats: sums of half-pixels, held here as the real
  numbers they are.
\<close>

definition respond ::
  "trial list \<Rightarrow> real \<Rightarrow> real \<Rightarrow> bool \<Rightarrow> session \<Rightarrow> error + (session \<times> bool)" where
  "respond trials now now' different s =
     (let response_time = now - start_time s;
          stimulus = trial.stimulus (current_trial_data s);
          is_correct =
            (if different then trial.is_mirror (current_trial_data s)
             else JBool (\<not> truthy (trial.is_mirror (current_trial_data s))))
      in case map_of stimulus ''id'' of
           None \<Rightarrow> Inl KeyError
         | Some sid \<Rightarrow>
             (case rotation s of
                None \<Rightarrow> Inl UnboundLocalError
              | Some rot \<Rightarrow>
                  (case subscript rot ''y'' of
                     Inl e \<Rightarrow> Inl e
                   | Inr ry \<Rightarrow>
                       (case calculate_angular_disparity ry
                               (PyFloat (Finite (response_rot_x s)))
                               (PyFloat (Finite (response_rot_y s))) of
                          Inl e \<Rightarrow> Inl e
                        | Inr total_rotation \<Rightarrow>
                            (let result =
                                   \<lparr>trial_number = current_trial s + 1,
                                    stimulus_id = sid,
                                    is_mirror = trial.is_mirror (current_trial_data s),
                                    user_response = different,
                                    response_time = response_time,
                                    is_correct = is_correct,
                                    rotation_enabled = session.rotation_enabled s,
                                    disparity = total_rotation,
                                    initial_angle =
                                      dict_get stimulus ''angle'' (JFloat (Finite 0))\<rparr>;
                                 s1 = s\<lparr>results := results s @ [result],
                                        current_trial := current_trial s + 1\<rparr>
                             in if length trials \<le> current_trial s1
                                then Inr (s1\<lparr>running := False\<rparr>, True)
                                else
                                  Inr (s1\<lparr>current_trial_data := trials ! current_trial s1,
                                          session.rotation_enabled :=
                                            trial.rotation_enabled (trials ! current_trial s1),
                                          response_rot_x := 0,
                                          response_rot_y := 0,
                                          start_time := now'\<rparr>, False))))))"

fun handle_event ::
  "trial list \<Rightarrow> real \<Rightarrow> real \<Rightarrow> session \<Rightarrow> event \<Rightarrow> error + (session \<times> bool)" where
  "handle_event trials now now' s QUIT = Inr (s\<lparr>running := False\<rparr>, False)"
| "handle_event trials now now' s (KEYDOWN K_ESCAPE) = Inr (s\<lparr>running := False\<rparr>, False)"
| "handle_event trials now now' s (KEYDOWN K_s) = respond trials now now' False s"
| "handle_event trials now now' s (KEYDOWN K_d) = respond trials now now' True s"
| "handle_event trials now now' s (KEYDOWN K_other) = Inr (s, False)"
| "handle_event trials now now' s (MOUSEBUTTONDOWN button pos) =
     (if button = 1 \<and> session.rotation_enabled s
      then Inr (s\<lparr>mouse_dragging := True, last_mouse_pos := Some pos\<rparr>, False)
      else Inr (s, False))"
| "handle_event trials now now' s (MOUSEBUTTONUP button pos) =
     (if button = 1 then Inr (s\<lparr>mouse_dragging := False\<rparr>, False) else Inr (s, False))"
| "handle_event trials now now' s (MOUSEMOTION pos) =
     (if mouse_dragging s \<and> session.rotation_enabled s
      then (case last_mouse_pos s of
              None \<Rightarrow> Inl TypeError
            | Some prev \<Rightarrow>
                (let dx = fst pos - fst prev;
                     dy = snd pos - snd prev
                 in Inr (s\<lparr>response_rot_y := response_rot_y s + real_of_int dx * 0.5,
                           response_rot_x := response_rot_x s + real_of_int dy * 0.5,
                           last_mouse_pos := Some pos\<rparr>, False)))
      else Inr (s, False))"
| "handle_event trials now now' s OTHER_EVENT = Inr (s, False)"

text \<open>
  One frame: the events of \<^verbatim>\<open>pygame.event.get()\<close> in order, each with its two clock
  readings, then the rendering part.
\<close>

fun process_events ::
  "trial list \<Rightarrow> session \<Rightarrow> (event \<times> real \<times> real) list \<Rightarrow> error + session" where
  "process_events trials s [] = Inr s"
| "process_events trials s ((e, now, now') # es) =
     (case handle_event trials now now' s e of
        Inl err \<Rightarrow> Inl err
      | Inr (s', brk) \<Rightarrow> if brk then Inr s' else process_events trials s' es)"

text \<open>
  \<^verbatim>\<open>draw_figure_from_data(figure_data, rotation, ...)\<close>: what the function reads from its
  arguments, in the order it reads it (\<open>rot\<close> is its \<^verbatim>\<open>rotation\<close>). The calls into OpenGL take the values as they are
  and draw; they are outside the model and taken not to fail. \<open>draw_vertices\<close> is the inner
  loop over the vertex indices of one face or edge, \<open>draw_polygons\<close> the loop over the
  faces or the edges.
\<close>

fun draw_vertices :: "json \<Rightarrow> json list \<Rightarrow> error + unit" where
  "draw_vertices vertices [] = Inr ()"
| "draw_vertices vertices (vertex_idx # rest) =
     (case py_getitem vertices vertex_idx of
        Inl e \<Rightarrow> Inl e
      | Inr vertex \<Rightarrow> draw_vertices vertices rest)"

fun draw_polygons :: "json \<Rightarrow> json list \<Rightarrow> error + unit" where
  "draw_polygons vertices [] = Inr ()"
| "draw_polygons vertices (face # rest) =
     (case py_iter face of
        Inl e \<Rightarrow> Inl e
      | Inr indices \<Rightarrow>
          (case draw_vertices vertices indices of
             Inl e \<Rightarrow> Inl e
           | Inr _ \<Rightarrow> draw_polygons vertices rest))"

definition draw_figure_from_data :: "json \<Rightarrow> json \<Rightarrow> error + unit" where
  "draw_figure_from_data figure_data rot =
     (case subscript figure_data ''vertices'' of
        Inl e \<Rightarrow> Inl e
      | Inr vertices \<Rightarrow>
     (case subscript figure_data ''edges'' of
        Inl e \<Rightarrow> Inl e
      | Inr edges \<Rightarrow>
     (case subscript figure_data ''faces'' of
        Inl e \<Rightarrow> Inl e
      | Inr faces \<Rightarrow>
     (case subscript rot ''y'' of
        Inl e \<Rightarrow> Inl e
      | Inr rotation_y \<Rightarrow>
     (case py_iter faces of
        Inl e \<Rightarrow> Inl e
      | Inr face_list \<Rightarrow>
     (case draw_polygons vertices face_list of
        Inl e \<Rightarrow> Inl e
      | Inr _ \<Rightarrow>
     (case py_iter edges of
        Inl e \<Rightarrow> Inl e
      | Inr edge_list \<Rightarrow> draw_polygons vertices edge_list)))))))"

text \<open>
  The rendering part of a frame: it binds \<open>rotation\<close>, then draws the left figure and the
  right one. Whether rotation is enabled only changes the angles handed to OpenGL for the
  right figure.
\<close>

definition render :: "session \<Rightarrow> error + session" where
  "render s =
     (let stimulus = trial.stimulus (current_trial_data s);
          rot =
            dict_get stimulus ''rotation''
              (JObj [(''x'', JInt 0), (''y'', JInt 0), (''z'', JInt 0)]);
          s1 = s\<lparr>rotation := Some rot\<rparr>
      in case map_of stimulus ''figure_left'' of
           None \<Rightarrow> Inl KeyError
         | Some figure_left \<Rightarrow>
             (case draw_figure_from_data figure_left rot of
                Inl e \<Rightarrow> Inl e
              | Inr _ \<Rightarrow>
                  (case map_of stimulus ''figure_right'' of
                     None \<Rightarrow> Inl KeyError
                   | Some figure_right \<Rightarrow>
                       (case draw_figure_from_data figure_right rot of
                          Inl e \<Rightarrow> Inl e
                        | Inr _ \<Rightarrow> Inr s1))))"

fun run_frames ::
  "trial list \<Rightarrow> session \<Rightarrow> (event \<times> real \<times> real) list list \<Rightarrow> error + session" where
  "run_frames trials s [] = Inr s"
| "run_frames trials s (f # fs) =
     (if running s
      then (case process_events trials s f of
              Inl err \<Rightarrow> Inl err
            | Inr s' \<Rightarrow>
                (case render s' of
                   Inl err \<Rightarrow> Inl err
                 | Inr s'' \<Rightarrow> run_frames trials s'' fs))
      else Inr s)"

text \<open>
  The invariant of the session variables that the handlers rely on: a drag in progress has
  a last pointer position, and the flag \<^verbatim>\<open>rotation_enabled\<close> is the one of the trial on
  display.
\<close>

definition session_inv :: "session \<Rightarrow> bool" where
  "session_inv s \<longleftrightarrow>
     (mouse_dragging s \<longrightarrow> last_mouse_pos s \<noteq> None) \<and>
     session.rotation_enabled s = trial.rotation_enabled (current_trial_data s)"

section \<open>The ADE analyses\<close>

text \<open>
  \<^verbatim>\<open>scipy.stats.pearsonr\<close> and \<^verbatim>\<open>scipy.stats.linregress\<close> are library functions and are
  parameters of the model; either may raise. A result record of the analyses has the keys of
  \<^verbatim>\<open>TrialResult\<close> (the session writes them, the post-hoc analysis reads them back), so the
  same record type is used. The plotting and printing are outside the model.
\<close>

type_synonym pearson = "json list \<Rightarrow> real list \<Rightarrow> error + (real \<times> real)"
type_synonym regress = "json list \<Rightarrow> real list \<Rightarrow> error + (real \<times> real \<times> real \<times> real \<times> real)"

text \<open>analyze\_ade.py, \<^verbatim>\<open>calculate_correlation(x, y)\<close>.\<close>

definition calculate_correlation :: "pearson \<Rightarrow> json list \<Rightarrow> real list \<Rightarrow> error + (real \<times> real)" where
  "calculate_correlation pearsonr x y =
     (if length x < 2 then Inr (0, 1) else pearsonr x y)"

text \<open>
  analyze\_ade.py, \<^verbatim>\<open>analyze_ade\<close>: the block that computes the correlation and the
  regression of one partition; the source writes it out twice, for the correct and for the
  incorrect results. The value is \<open>((r, p), (slope, intercept, r_reg, p_reg, std_err))\<close>.
\<close>

definition partition_fit ::
  "pearson \<Rightarrow> regress \<Rightarrow> json list \<Rightarrow> real list \<Rightarrow>
     error + ((real \<times> real) \<times> (real \<times> real \<times> real \<times> real \<times> real))" where
  "partition_fit pearsonr linregress angles rtimes =
     (if 2 \<le> length angles
      then (case calculate_correlation pearsonr angles rtimes of
              Inl e \<Rightarrow> Inl e
            | Inr rp \<Rightarrow>
                (case linregress angles rtimes of
                   Inl e \<Rightarrow> Inl e
                 | Inr reg \<Rightarrow> Inr (rp, reg)))
      else Inr ((0, 1), (0, 0, 0, 1, 0)))"

text \<open>\<^verbatim>\<open>analyze_ade(results)\<close>: \<open>None\<close> is the early return on an empty result list.\<close>

definition analyze_ade ::
  "pearson \<Rightarrow> regress \<Rightarrow> TrialResult list \<Rightarrow>
     error + (((real \<times> real) \<times> (real \<times> real \<times> real \<times> real \<times> real)) \<times>
              ((real \<times> real) \<times> (real \<times> real \<times> real \<times> real \<times> real))) option" where
  "analyze_ade pearsonr linregress result_dicts =
     (if result_dicts = [] then Inr None
      else
        (let correct_results = filter (\<lambda>r. truthy (is_correct r)) result_dicts;
             incorrect_results = filter (\<lambda>r. \<not> truthy (is_correct r)) result_dicts;
             correct_angles = map initial_angle correct_results;
             correct_times = map response_time correct_results;
             incorrect_angles = map initial_angle incorrect_results;
             incorrect_times = map response_time incorrect_results
         in case partition_fit pearsonr linregress correct_angles correct_times of
              Inl e \<Rightarrow> Inl e
            | Inr fit_correct \<Rightarrow>
                (case partition_fit pearsonr linregress incorrect_angles incorrect_times of
                   Inl e \<Rightarrow> Inl e
                 | Inr fit_incorrect \<Rightarrow> Inr (Some (fit_correct, fit_incorrect)))))"

text \<open>
  experience\_pygame\_3d.py, \<^verbatim>\<open>analyze_ade_automatically\<close>: the regression block of the inner
  \<^verbatim>\<open>make_plot\<close>, written out twice in the source; the value is \<open>(slope, intercept, r, p)\<close>.
\<close>

definition regression_or_default ::
  "regress \<Rightarrow> json list \<Rightarrow> real list \<Rightarrow> error + (real \<times> real \<times> real \<times> real)" where
  "regression_or_default linregress angles rtimes =
     (if 2 \<le> length angles
      then (case linregress angles rtimes of
              Inl e \<Rightarrow> Inl e
            | Inr (slope, intercept, r, p, std_err) \<Rightarrow> Inr (slope, intercept, r, p))
      else Inr (0, 0, 0, 1))"

definition make_plot ::
  "regress \<Rightarrow> TrialResult list \<Rightarrow>
     error + ((real \<times> real \<times> real \<times> real) \<times> (real \<times> real \<times> real \<times> real))" where
  "make_plot linregress data =
     (let correct = filter (\<lambda>r. truthy (is_correct r)) data;
          incorrect = filter (\<lambda>r. \<not> truthy (is_correct r)) data;
          correct_angles = map initial_angle correct;
          correct_times = map response_time correct;
          incorrect_angles = map initial_angle incorrect;
          incorrect_times = map response_time incorrect
      in case regression_or_default linregress correct_angles correct_times of
           Inl e \<Rightarrow> Inl e
         | Inr fit_c \<Rightarrow>
             (case regression_or_default linregress incorrect_angles incorrect_times of
                Inl e \<Rightarrow> Inl e
              | Inr fit_i \<Rightarrow> Inr (fit_c, fit_i)))"

text \<open>
  \<^verbatim>\<open>analyze_ade_automatically(results_dict)\<close>: one optional pair of fits for the trials with
  rotation and one for the trials without; \<open>None\<close> where \<^verbatim>\<open>make_plot\<close> is not called.
\<close>

definition analyze_ade_automatically ::
  "regress \<Rightarrow> TrialResult list \<Rightarrow>
     error + (((real \<times> real \<times> real \<times> real) \<times> (real \<times> real \<times> real \<times> real)) option \<times>
              ((real \<times> real \<times> real \<times> real) \<times> (real \<times> real \<times> real \<times> real)) option)" where
  "analyze_ade_automatically linregress results_dict =
     (if results_dict = [] then Inr (None, None)
      else
        (let rotables = filter (\<lambda>r. TrialResult.rotation_enabled r) results_dict;
             non_rotables = filter (\<lambda>r. \<not> TrialResult.rotation_enabled r) results_dict
         in case (if rotables \<noteq> [] then map_sum id Some (make_plot linregress rotables)
                  else Inr None) of
              Inl e \<Rightarrow> Inl e
            | Inr with_rotation \<Rightarrow>
                (case (if non_rotables \<noteq> []
                       then map_sum id Some (make_plot linregress non_rotables)
                       else Inr None) of
                   Inl e \<Rightarrow> Inl e
                 | Inr without_rotation \<Rightarrow> Inr (with_rotation, without_rotation))))"

section \<open>The stimulus file\<close>

text \<open>
  A file system maps a path to the text of the file. \<^verbatim>\<open>json.load\<close> and \<^verbatim>\<open>json.dumps\<close> are
  library functions and are parameters: \<open>json_load\<close> gives \<open>None\<close> where the library raises
  \<^verbatim>\<open>JSONDecodeError\<close>. The stimulus file holds an array of objects, so a successful parse
  is a list of stimuli.
\<close>

type_synonym filesystem = "string \<rightharpoonup> string"

text \<open>experience\_pygame\_3d.py, \<^verbatim>\<open>load_stimuli\<close>, at the path it has joined.\<close>

definition load_stimuli ::
  "(string \<Rightarrow> stimulus list option) \<Rightarrow> filesystem \<Rightarrow> string \<Rightarrow> error + stimulus list" where
  "load_stimuli json_load fs full_path =
     (case fs full_path of
        None \<Rightarrow> Inl FileNotFoundError
      | Some text \<Rightarrow>
          (case json_load text of
             None \<Rightarrow> Inl JSONDecodeError
           | Some data \<Rightarrow> Inr data))"

text \<open>draw\_first\_stimulus.py, \<^verbatim>\<open>load_all_stimuli\<close>.\<close>

definition load_all_stimuli ::
  "(string \<Rightarrow> stimulus list option) \<Rightarrow> filesystem \<Rightarrow> string \<Rightarrow> error + stimulus list" where
  "load_all_stimuli json_load fs json_path =
     (case fs json_path of
        None \<Rightarrow> Inl FileNotFoundError
      | Some text \<Rightarrow>
          (case json_load text of
             None \<Rightarrow> Inl JSONDecodeError
           | Some data \<Rightarrow> if data = [] then Inl ValueError else Inr data))"


definition json_path :: string where
  "json_path = ''stimuli_data.json''"





section \<open>Sample data\<close>

text \<open>
  A stimulus as the stimulus file holds them, used in the examples below: a square as the
  left and as the right figure, a base rotation of 40 degrees about the y axis.
\<close>

definition sample_figure :: json where
  "sample_figure =
     JObj [(''vertices'',
              JArr [JArr [JInt 0, JInt 0, JInt 0], JArr [JInt 1, JInt 0, JInt 0],
                    JArr [JInt 1, JInt 1, JInt 0], JArr [JInt 0, JInt 1, JInt 0]]),
           (''edges'',
              JArr [JArr [JInt 0, JInt 1], JArr [JInt 1, JInt 2],
                    JArr [JInt 2, JInt 3], JArr [JInt 3, JInt 0]]),
           (''faces'', JArr [JArr [JInt 0, JInt 1, JInt 2, JInt 3]])]"

definition sample_stimulus :: "string \<Rightarrow> json \<Rightarrow> stimulus" where
  "sample_stimulus name mirror =
     [(''id'', JStr name),
      (''figure_left'', sample_figure),
      (''figure_right'', sample_figure),
      (''rotation'', JObj [(''x'', JInt 0), (''y'', JInt 40), (''z'', JInt 0)]),
      (''angle'', JInt 40),
      (''is_mirror'', mirror)]"

definition sample_trial :: "string \<Rightarrow> bool \<Rightarrow> bool \<Rightarrow> trial" where
  "sample_trial name mirror enabled =
     \<lparr>trial.stimulus = sample_stimulus name (JBool mirror),
      trial.rotation_enabled = enabled,
      trial.is_mirror = JBool mirror\<rparr>"

section \<open>Auxiliary facts\<close>

lemma round_half_even_of_int: "round_half_even (of_int z) = z"
  by (simp add: round_half_even_def)

lemma round_half_even_small: "0 \<le> q \<Longrightarrow> q < 1/2 \<Longrightarrow> round_half_even q = 0"
proof -
  assume a: "0 \<le> q" "q < 1/2"
  then have "\<lfloor>q\<rfloor> = 0" by (simp add: floor_eq_iff)
  with a show ?thesis by (simp add: round_half_even_def)
qed

lemma round_half_even_bounds: "of_int (round_half_even q) \<le> q + 1/2 \<and> q - 1/2 \<le> of_int (round_half_even q)"
  unfolding round_half_even_def Let_def
  by (auto; linarith)

lemma floor_log2_eq:
  assumes "2 powr of_int k \<le> \<bar>r\<bar>" and "\<bar>r\<bar> < 2 powr of_int (k + 1)"
  shows "\<lfloor>log 2 \<bar>r\<bar>\<rfloor> = k"
proof -
  have pos: "0 < \<bar>r\<bar>" using assms(1) by (smt (verit) powr_gt_zero)
  have "of_int k \<le> log 2 \<bar>r\<bar>"
    using assms(1) pos by (simp add: le_log_iff)
  moreover have "log 2 \<bar>r\<bar> < of_int (k + 1)"
    using assms(2) pos by (simp add: log_less_iff)
  ultimately show ?thesis by (simp add: floor_eq_iff)
qed

lemma round_double_nonneg:
  assumes "0 \<le> r"
  shows "(\<exists>v\<ge>0. round_double r = Finite v) \<or> round_double r = Infinity False"
proof (cases "r = 0")
  case True
  then show ?thesis by (simp add: round_double_def)
next
  case False
  with assms have pos: "0 < r" by simp
  let ?e = "ulp_exponent r"
  let ?q = "r / 2 powr of_int ?e"
  have "0 < ?q" using pos by simp
  then have "- 1/2 < real_of_int (round_half_even ?q)"
    using round_half_even_bounds [of ?q] by linarith
  then have "0 \<le> round_half_even ?q" by linarith
  then have "0 \<le> real_of_int (round_half_even ?q) * 2 powr of_int ?e"
    by simp
  with pos show ?thesis
    by (auto simp add: round_double_def Let_def)
qed

lemma round_double_quarter_pos:
  assumes "0 < n" and "n < 2 ^ 53"
  shows "round_double (real_of_int n / 4) = Finite (real_of_int n / 4)"
proof -
  let ?r = "real_of_int n / 4"
  let ?L = "\<lfloor>log 2 \<bar>?r\<bar>\<rfloor>"
  have rpos: "0 < ?r" using assms(1) by simp
  have lo: "1 / 4 \<le> ?r" using assms(1) by simp
  have "real_of_int n < 2 ^ 53" using assms(2) by (metis of_int_less_numeral_power_cancel_iff)
  then have hi: "?r < 2 ^ 51" by simp
  have "log 2 ?r < 51"
    using hi rpos by (simp add: log_less_iff powr_realpow [symmetric] del: powr_realpow)
  then have L_hi: "?L \<le> 50" using rpos by (simp add: floor_le_iff)
  have "(2::real) powr (- 2) = 1 / 4" by (simp add: powr_minus_divide)
  then have "- 2 \<le> log 2 ?r"
    using lo rpos by (simp add: le_log_iff)
  then have L_lo: "- 2 \<le> ?L" using rpos by (simp add: le_floor_iff)
  have e: "ulp_exponent ?r = ?L - 52"
    using L_lo unfolding ulp_exponent_def by linarith
  define k where "k = nat (50 - ?L)"
  have k: "int k = 50 - ?L" using L_hi by (simp add: k_def)
  have "(2::real) powr real_of_int (?L - 52) = (2::real) powr (- 2) * 2 powr (- real k)"
  proof -
    have "real_of_int (?L - 52) = - 2 + - real k" using k by linarith
    then show ?thesis by (simp only: powr_add)
  qed
  then have pw: "(2::real) powr real_of_int (?L - 52) = (1 / 4) / 2 ^ k"
    by (simp add: powr_minus_divide powr_realpow)
  have q: "?r / (2::real) powr real_of_int (?L - 52) = real_of_int (n * 2 ^ k)"
    unfolding pw by simp
  have v: "real_of_int (round_half_even (?r / (2::real) powr real_of_int (?L - 52))) * (2::real) powr real_of_int (?L - 52) = ?r"
    unfolding q round_half_even_of_int unfolding pw by simp
  have "\<bar>?r\<bar> < 2 ^ 1024"
  proof -
    have "(2::real) ^ 51 \<le> 2 ^ 1024" by (rule power_increasing) simp_all
    with hi rpos show ?thesis by simp
  qed
  with rpos v e show ?thesis
    by (simp add: round_double_def Let_def)
qed

lemma round_double_ge_zero: "0 \<le> r \<Longrightarrow> ge_zero (round_double r)"
  using round_double_nonneg [of r] by auto

lemma float_mul_self: "float_mul x x = NaN \<or> ge_zero (float_mul x x)"
  by (cases x) (auto simp add: round_double_ge_zero)

lemma float_add_ge_zero:
  "a = NaN \<or> ge_zero a \<Longrightarrow> b = NaN \<or> ge_zero b \<Longrightarrow>
     float_add a b = NaN \<or> ge_zero (float_add a b)"
  by (cases a; cases b) (auto simp add: round_double_ge_zero)

lemma float_sqrt_ge_zero:
  "a = NaN \<or> ge_zero a \<Longrightarrow> \<exists>d. float_sqrt a = Inr d \<and> (d = NaN \<or> ge_zero d)"
  by (cases a) (auto simp add: round_double_ge_zero)

lemma disparity_of_floats:
  "\<exists>d. calculate_angular_disparity a (PyFloat x) (PyFloat y) = Inr d \<and> (d = NaN \<or> ge_zero d)"
  using float_sqrt_ge_zero [OF float_add_ge_zero [OF float_mul_self [of x] float_mul_self [of y]]]
  by (simp add: calculate_angular_disparity_def)

lemma round_double_quarter:
  assumes "0 \<le> n" and "n < 2 ^ 53"
  shows "round_double (real_of_int n / 4) = Finite (real_of_int n / 4)"
proof (cases "n = 0")
  case True
  then show ?thesis by (simp add: round_double_def)
next
  case False
  with assms show ?thesis by (intro round_double_quarter_pos) simp_all
qed

lemma round_double_positive:
  assumes "1 / 2 \<le> r" and "r < 2 ^ 60"
  shows "\<exists>v>0. round_double r = Finite v"
proof -
  let ?L = "\<lfloor>log 2 \<bar>r\<bar>\<rfloor>"
  have rpos: "0 < r" using assms(1) by simp
  have "(2::real) powr (- 1) = 1 / 2" by (simp add: powr_minus_divide)
  then have "- 1 \<le> log 2 r" using assms(1) rpos by (simp add: le_log_iff)
  then have L_lo: "- 1 \<le> ?L" using rpos by (simp add: le_floor_iff)
  have "log 2 r < 60"
    using assms(2) rpos by (simp add: log_less_iff powr_realpow [symmetric] del: powr_realpow)
  then have L_hi: "?L \<le> 59" using rpos by (simp add: floor_le_iff)
  have e: "ulp_exponent r = ?L - 52" using L_lo unfolding ulp_exponent_def by linarith
  let ?p = "(2::real) powr real_of_int (?L - 52)"
  let ?m = "round_half_even (r / ?p)"
  have ppos: "0 < ?p" by simp
  have "real_of_int ?L \<le> log 2 r" using rpos by simp
  then have "2 powr real_of_int ?L \<le> 2 powr log 2 r" by (intro powr_mono) simp_all
  then have "2 powr real_of_int ?L \<le> r" using rpos by simp
  then have "2 powr real_of_int ?L / ?p \<le> r / ?p"
    using ppos by (simp add: divide_right_mono)
  moreover have "2 powr real_of_int ?L / ?p = 2 powr 52"
    by (simp add: powr_diff [symmetric])
  ultimately have q_lo: "2 powr 52 \<le> r / ?p" by simp
  have "log 2 r < real_of_int ?L + 1" using rpos by linarith
  then have "2 powr log 2 r < 2 powr (real_of_int ?L + 1)" by (intro powr_less_mono) simp_all
  then have "r < 2 powr (real_of_int ?L + 1)" using rpos by simp
  then have "r / ?p < 2 powr (real_of_int ?L + 1) / ?p"
    using ppos by (simp add: divide_strict_right_mono)
  moreover have "2 powr (real_of_int ?L + 1) / ?p = 2 powr 53"
    by (simp add: powr_diff [symmetric])
  ultimately have q_hi: "r / ?p < 2 powr 53" by simp
  have m_lo: "2 powr 52 - 1 / 2 \<le> real_of_int ?m"
    using round_half_even_bounds [of "r / ?p"] q_lo by linarith
  have m_hi: "real_of_int ?m \<le> 2 powr 53 + 1 / 2"
    using round_half_even_bounds [of "r / ?p"] q_hi by linarith
  have "(1::real) \<le> 2 powr 52" by simp
  with m_lo have m_pos: "0 < real_of_int ?m" by linarith
  then have vpos: "0 < real_of_int ?m * ?p" by simp
  have "real_of_int (?L - 52) \<le> 7" using L_hi by linarith
  then have "?p \<le> 2 powr 7" by (intro powr_mono) simp_all
  moreover have "real_of_int ?m \<le> 2 powr 54"
  proof -
    have "(2::real) powr 53 + 1 / 2 \<le> 2 powr 53 + 2 powr 53" by simp
    also have "\<dots> = 2 powr 54" by (simp add: powr_realpow [symmetric] del: powr_realpow) 
    finally show ?thesis using m_hi by linarith
  qed
  ultimately have "real_of_int ?m * ?p \<le> 2 powr 54 * 2 powr 7"
    using m_pos ppos by (intro mult_mono) simp_all
  also have "\<dots> = 2 ^ 61" by (simp add: powr_add [symmetric])
  also have "\<dots> < (2::real) ^ 1024" by (rule power_strict_increasing) simp_all
  finally have small: "\<bar>real_of_int ?m * ?p\<bar> < 2 ^ 1024" using vpos by simp
  from rpos e vpos small show ?thesis
    by (simp add: round_double_def Let_def)
qed

lemma two_powr_neg: "(2::real) powr (- real n) = 1 / 2 ^ n"
  by (simp add: powr_minus_divide powr_realpow)

lemma round_double_underflow: "round_double (1 / 2 ^ 1200) = Finite 0"
proof -
  let ?r = "1 / (2::real) ^ 1200"
  have a: "2 powr real_of_int (- 1200) = ?r"
    using two_powr_neg [of 1200] by simp
  have b: "2 powr real_of_int (- 1200 + 1) = 1 / (2::real) ^ 1199"
    using two_powr_neg [of 1199] by simp
  have "(2::real) ^ 1199 < 2 ^ 1200" by (rule power_strict_increasing) simp_all
  then have lt: "?r < 1 / (2::real) ^ 1199"
    by (simp add: frac_less2)
  have L: "\<lfloor>log 2 \<bar>?r\<bar>\<rfloor> = - 1200"
    by (rule floor_log2_eq) (use a b lt in simp_all)
  have e: "ulp_exponent ?r = - 1074"
    unfolding ulp_exponent_def L by simp
  have p: "(2::real) powr real_of_int (- 1074) = 1 / 2 ^ 1074"
    using two_powr_neg [of 1074] by simp
  have "?r / (1 / 2 ^ 1074) = 1 / (2::real) ^ 126"
  proof -
    have "(2::real) ^ 1200 = 2 ^ 1074 * 2 ^ 126" by (simp add: power_add [symmetric])
    then show ?thesis by simp
  qed
  moreover have "1 / (2::real) ^ 126 < 1 / 2"
  proof -
    have "(2::real) ^ 1 < 2 ^ 126" by (rule power_strict_increasing) simp_all
    then show ?thesis by (simp add: frac_less2)
  qed
  ultimately have "round_half_even (?r / 2 powr real_of_int (- 1074)) = 0"
    unfolding p by (intro round_half_even_small) simp_all
  then show ?thesis
    unfolding round_double_def Let_def e by simp
qed

lemma round_double_overflow: "round_double (2 ^ 1200) = Infinity False"
proof -
  let ?r = "(2::real) ^ 1200"
  have a: "2 powr real_of_int 1200 = ?r" by (simp add: powr_realpow)
  have b: "2 powr real_of_int (1200 + 1) = (2::real) ^ 1201" by (simp add: powr_realpow)
  have L: "\<lfloor>log 2 \<bar>?r\<bar>\<rfloor> = 1200"
    by (rule floor_log2_eq) (use a b in simp_all)
  have e: "ulp_exponent ?r = 1148"
    unfolding ulp_exponent_def L by simp
  have p: "(2::real) powr real_of_int 1148 = 2 ^ 1148" by (simp add: powr_realpow)
  have "?r = 2 ^ 52 * 2 ^ 1148" by (simp add: power_add [symmetric])
  then have q: "?r / 2 ^ 1148 = real_of_int (2 ^ 52)" by simp
  have v: "real_of_int (round_half_even (?r / 2 powr real_of_int 1148)) * 2 powr real_of_int 1148 = ?r"
    unfolding p q round_half_even_of_int by (simp add: power_add [symmetric])
  have big: "(2::real) ^ 1024 \<le> \<bar>?r\<bar>"
  proof -
    have "(2::real) ^ 1024 \<le> 2 ^ 1200" by (rule power_increasing) simp_all
    then show ?thesis by simp
  qed
  show ?thesis
    unfolding round_double_def Let_def e v using big by simp
qed

lemma map_stimulus_make_trial:
  "map (trial.stimulus \<circ> make_trial n) (enumerate k xs) = xs"
  by (induction xs arbitrary: k) (simp_all add: make_trial_def)

lemma stimuli_of_generate_trial_set:
  "map trial.stimulus (generate_trial_set shuffle stimuli n m) =
     py_slice_to
       (shuffle (if int (length (filter is_valid stimuli)) < n + m
                 then py_slice_to stimuli (n + m) else filter is_valid stimuli))
       (n + m)"
  by (simp add: generate_trial_set_def Let_def map_stimulus_make_trial)

lemma nth_generate_trial_set:
  assumes "i < length (generate_trial_set shuffle stimuli n m)"
  shows "generate_trial_set shuffle stimuli n m ! i =
           make_trial n (i, map trial.stimulus (generate_trial_set shuffle stimuli n m) ! i)"
  using assms
  unfolding stimuli_of_generate_trial_set
  by (simp add: generate_trial_set_def Let_def nth_enumerate_eq)

lemma length_generate_trial_set:
  assumes "\<And>xs. mset (shuffle xs) = mset xs" and "0 \<le> n + m"
  shows "length (generate_trial_set shuffle stimuli n m) = min (nat (n + m)) (length stimuli)"
proof -
  have len: "length (shuffle xs) = length xs" for xs
    using assms(1) [of xs] by (metis size_mset)
  have le: "length (filter is_valid stimuli) \<le> length stimuli" by simp
  show ?thesis
  proof (cases "int (length (filter is_valid stimuli)) < n + m")
    case True
    then show ?thesis
      using assms(2) by (simp add: generate_trial_set_def Let_def py_slice_to_def len)
  next
    case False
    then have "nat (n + m) \<le> length (filter is_valid stimuli)" by linarith
    moreover from this le have "nat (n + m) \<le> length stimuli" by (rule order_trans)
    ultimately show ?thesis
      using False assms(2)
      by (simp add: generate_trial_set_def Let_def py_slice_to_def len)
  qed
qed

lemma respond_Inr:
  assumes "respond trials now now' different s = Inr (s', brk)"
  shows "\<exists>sid rot ry total_rotation.
           map_of (trial.stimulus (current_trial_data s)) ''id'' = Some sid \<and>
           rotation s = Some rot \<and> subscript rot ''y'' = Inr ry \<and>
           calculate_angular_disparity ry
             (PyFloat (Finite (response_rot_x s))) (PyFloat (Finite (response_rot_y s)))
             = Inr total_rotation \<and>
           results s' = results s @
             [\<lparr>trial_number = current_trial s + 1,
               stimulus_id = sid,
               is_mirror = trial.is_mirror (current_trial_data s),
               user_response = different,
               response_time = now - start_time s,
               is_correct =
                 (if different then trial.is_mirror (current_trial_data s)
                  else JBool (\<not> truthy (trial.is_mirror (current_trial_data s)))),
               rotation_enabled = session.rotation_enabled s,
               disparity = total_rotation,
               initial_angle =
                 dict_get (trial.stimulus (current_trial_data s)) ''angle'' (JFloat (Finite 0))\<rparr>]"
  using assms
  by (auto simp add: respond_def Let_def split: option.splits sum.splits if_splits)

lemma respond_total:
  assumes "map_of (trial.stimulus (current_trial_data s)) ''id'' = Some sid"
    and "rotation s = Some rot" and "subscript rot ''y'' = Inr ry"
  shows "\<exists>s' brk. respond trials now now' different s = Inr (s', brk)"
proof -
  from disparity_of_floats [of ry "Finite (response_rot_x s)" "Finite (response_rot_y s)"]
  obtain d where
    "calculate_angular_disparity ry
       (PyFloat (Finite (response_rot_x s))) (PyFloat (Finite (response_rot_y s))) = Inr d"
    by blast
  with assms show ?thesis by (auto simp add: respond_def Let_def)
qed

lemma respond_next:
  assumes "respond trials now now' different s = Inr (s', brk)"
    and "Suc (current_trial s) < length trials"
  shows "\<not> brk \<and> current_trial s' = Suc (current_trial s) \<and>
         current_trial_data s' = trials ! Suc (current_trial s) \<and>
         session.rotation_enabled s' = trial.rotation_enabled (trials ! Suc (current_trial s)) \<and>
         response_rot_x s' = 0 \<and> response_rot_y s' = 0 \<and> start_time s' = now' \<and>
         running s' = running s \<and> mouse_dragging s' = mouse_dragging s \<and>
         last_mouse_pos s' = last_mouse_pos s \<and> rotation s' = rotation s"
  using assms
  by (auto simp add: respond_def Let_def split: option.splits sum.splits if_splits)

lemma respond_last:
  assumes "respond trials now now' different s = Inr (s', brk)"
    and "length trials \<le> Suc (current_trial s)"
  shows "brk \<and> current_trial s' = Suc (current_trial s) \<and>
         current_trial_data s' = current_trial_data s \<and>
         session.rotation_enabled s' = session.rotation_enabled s \<and>
         response_rot_x s' = response_rot_x s \<and> response_rot_y s' = response_rot_y s \<and>
         start_time s' = start_time s \<and>
         \<not> running s' \<and> mouse_dragging s' = mouse_dragging s \<and>
         last_mouse_pos s' = last_mouse_pos s \<and> rotation s' = rotation s"
  using assms
  by (auto simp add: respond_def Let_def split: option.splits sum.splits if_splits)

lemma handle_event_inv:
  assumes "handle_event trials now now' s e = Inr (s', brk)" and "session_inv s"
  shows "session_inv s'"
proof (cases e)
  case (KEYDOWN k)
  show ?thesis
  proof (cases k)
    case K_s
    with KEYDOWN assms(1) have r: "respond trials now now' False s = Inr (s', brk)" by simp
    show ?thesis
      using respond_next [OF r] respond_last [OF r] assms(2)
      by (cases "Suc (current_trial s) < length trials") (auto simp add: session_inv_def)
  next
    case K_d
    with KEYDOWN assms(1) have r: "respond trials now now' True s = Inr (s', brk)" by simp
    show ?thesis
      using respond_next [OF r] respond_last [OF r] assms(2)
      by (cases "Suc (current_trial s) < length trials") (auto simp add: session_inv_def)
  qed (use KEYDOWN assms in \<open>auto simp add: session_inv_def\<close>)
qed (use assms in \<open>auto simp add: session_inv_def Let_def split: if_splits option.splits\<close>)

lemma process_events_inv:
  "process_events trials s es = Inr s' \<Longrightarrow> session_inv s \<Longrightarrow> session_inv s'"
proof (induction es arbitrary: s)
  case Nil
  then show ?case by simp
next
  case (Cons a es)
  obtain e now now' where a: "a = (e, now, now')" by (cases a)
  from Cons.prems(1) a obtain s1 brk where
    h: "handle_event trials now now' s e = Inr (s1, brk)"
    and rest: "(if brk then Inr s1 else process_events trials s1 es) = Inr s'"
    by (auto split: sum.splits)
  from handle_event_inv [OF h Cons.prems(2)] have "session_inv s1" .
  with rest Cons.IH show ?case by (auto split: if_splits)
qed

lemma render_Inr:
  "render s = Inr s' \<Longrightarrow>
     s' = s\<lparr>rotation :=
            Some (dict_get (trial.stimulus (current_trial_data s)) ''rotation''
                    (JObj [(''x'', JInt 0), (''y'', JInt 0), (''z'', JInt 0)]))\<rparr>"
  by (auto simp add: render_def Let_def split: option.splits sum.splits)

lemma render_inv: "render s = Inr s' \<Longrightarrow> session_inv s \<Longrightarrow> session_inv s'"
  by (drule render_Inr) (simp add: session_inv_def)

lemma run_frames_inv:
  "run_frames trials s fs = Inr s' \<Longrightarrow> session_inv s \<Longrightarrow> session_inv s'"
proof (induction fs arbitrary: s)
  case Nil
  then show ?case by simp
next
  case (Cons f fs)
  show ?case
  proof (cases "running s")
    case True
    with Cons.prems(1) obtain s1 s2 where p: "process_events trials s f = Inr s1"
      and d: "render s1 = Inr s2"
      and r: "run_frames trials s2 fs = Inr s'"
      by (auto split: sum.splits)
    from process_events_inv [OF p Cons.prems(2)] have "session_inv s2"
      by (rule render_inv [OF d])
    with r Cons.IH show ?thesis by blast
  next
    case False
    with Cons.prems show ?thesis by simp
  qed
qed

lemma init_session_inv: "init_session trials t0 = Inr s \<Longrightarrow> session_inv s"
  by (auto simp add: init_session_def session_inv_def split: list.splits)

lemma fallback_stimuli:
  assumes "\<And>xs. mset (shuffle xs) = mset xs"
    and "int (length (filter is_valid stimuli)) < n + m"
  shows "map trial.stimulus (generate_trial_set shuffle stimuli n m)
           = shuffle (take (nat (n + m)) stimuli)"
proof -
  have pos: "0 \<le> n + m" using assms(2) by linarith
  have len: "length (shuffle xs) = length xs" for xs
    using assms(1) [of xs] by (metis size_mset)
  have "map trial.stimulus (generate_trial_set shuffle stimuli n m)
          = take (nat (n + m)) (shuffle (take (nat (n + m)) stimuli))"
    using assms(2) pos by (simp add: stimuli_of_generate_trial_set py_slice_to_def)
  also have "\<dots> = shuffle (take (nat (n + m)) stimuli)"
    by (simp add: len)
  finally show ?thesis .
qed

lemma labelled_stimuli:
  assumes "\<And>xs. mset (shuffle xs) = mset xs"
    and "n + m \<le> int (length (filter is_valid stimuli))"
    and "t \<in> set (generate_trial_set shuffle stimuli n m)"
  shows "is_valid (trial.stimulus t)"
proof -
  have "set (shuffle xs) = set xs" for xs
    using assms(1) [of xs] by (metis set_mset_mset)
  then have "set (py_slice_to (shuffle (filter is_valid stimuli)) (n + m))
               \<subseteq> set (filter is_valid stimuli)"
    by (metis py_slice_to_def set_take_subset)
  moreover have "trial.stimulus t \<in> set (map trial.stimulus (generate_trial_set shuffle stimuli n m))"
    using assms(3) by simp
  ultimately show ?thesis
    using assms(2) unfolding stimuli_of_generate_trial_set by auto
qed

lemma is_mirror_of_trial:
  "t \<in> set (generate_trial_set shuffle stimuli n m) \<Longrightarrow>
     trial.is_mirror t = dict_get (trial.stimulus t) ''is_mirror'' (JBool False)"
  by (auto simp add: generate_trial_set_def Let_def make_trial_def)

lemma handle_event_zero_kept:
  assumes "handle_event trials now now' s e = Inr (s', brk)"
    and "\<forall>pos. e \<noteq> MOUSEMOTION pos"
    and "response_rot_x s = 0 \<and> response_rot_y s = 0"
  shows "response_rot_x s' = 0 \<and> response_rot_y s' = 0"
proof (cases e)
  case (KEYDOWN k)
  show ?thesis
  proof (cases k)
    case K_s
    with KEYDOWN assms(1) have r: "respond trials now now' False s = Inr (s', brk)" by simp
    show ?thesis
      using respond_next [OF r] respond_last [OF r] assms(3)
      by (cases "Suc (current_trial s) < length trials") auto
  next
    case K_d
    with KEYDOWN assms(1) have r: "respond trials now now' True s = Inr (s', brk)" by simp
    show ?thesis
      using respond_next [OF r] respond_last [OF r] assms(3)
      by (cases "Suc (current_trial s) < length trials") auto
  qed (use KEYDOWN assms in auto)
qed (use assms in \<open>auto split: if_splits\<close>)

lemma process_events_zero_kept:
  "process_events trials s es = Inr s' \<Longrightarrow>
   \<forall>x \<in> set es. \<forall>pos. fst x \<noteq> MOUSEMOTION pos \<Longrightarrow>
   response_rot_x s = 0 \<and> response_rot_y s = 0 \<Longrightarrow>
   response_rot_x s' = 0 \<and> response_rot_y s' = 0"
proof (induction es arbitrary: s)
  case Nil
  then show ?case by simp
next
  case (Cons a es)
  obtain e now now' where a: "a = (e, now, now')" by (cases a)
  from Cons.prems(1) a obtain s1 brk where
    h: "handle_event trials now now' s e = Inr (s1, brk)"
    and rest: "(if brk then Inr s1 else process_events trials s1 es) = Inr s'"
    by (auto split: sum.splits)
  from Cons.prems(2) a have "\<forall>pos. e \<noteq> MOUSEMOTION pos" by simp
  from handle_event_zero_kept [OF h this Cons.prems(3)]
  have z: "response_rot_x s1 = 0 \<and> response_rot_y s1 = 0" .
  show ?case
  proof (cases brk)
    case True
    with rest z show ?thesis by simp
  next
    case False
    with rest have "process_events trials s1 es = Inr s'" by simp
    from Cons.IH [OF this _ z] Cons.prems(2) show ?thesis by simp
  qed
qed


lemma handle_event_running:
  assumes "handle_event trials now now' s e = Inr (s', brk)" and "running s'"
  shows "running s \<and> \<not> brk"
proof (cases e)
  case (KEYDOWN k)
  show ?thesis
  proof (cases k)
    case K_s
    with KEYDOWN assms(1) have r: "respond trials now now' False s = Inr (s', brk)" by simp
    show ?thesis
      using respond_next [OF r] respond_last [OF r] assms(2)
      by (cases "Suc (current_trial s) < length trials") auto
  next
    case K_d
    with KEYDOWN assms(1) have r: "respond trials now now' True s = Inr (s', brk)" by simp
    show ?thesis
      using respond_next [OF r] respond_last [OF r] assms(2)
      by (cases "Suc (current_trial s) < length trials") auto
  qed (use KEYDOWN assms in auto)
qed (use assms in \<open>auto split: if_splits option.splits\<close>)

lemma process_events_running:
  "process_events trials s es = Inr s' \<Longrightarrow> running s' \<Longrightarrow> running s"
proof (induction es arbitrary: s)
  case Nil
  then show ?case by simp
next
  case (Cons a es)
  obtain e now now' where a: "a = (e, now, now')" by (cases a)
  from Cons.prems(1) a obtain s1 brk where
    h: "handle_event trials now now' s e = Inr (s1, brk)"
    and rest: "(if brk then Inr s1 else process_events trials s1 es) = Inr s'"
    by (auto split: sum.splits)
  have "running s1"
  proof (cases brk)
    case True
    with rest Cons.prems(2) show ?thesis by simp
  next
    case False
    with rest have "process_events trials s1 es = Inr s'" by simp
    from Cons.IH [OF this Cons.prems(2)] show ?thesis .
  qed
  from handle_event_running [OF h this] show ?case by simp
qed

lemma process_events_split:
  assumes "process_events trials s (es1 @ (e, now, now') # es2) = Inr s'" and "running s'"
  shows "\<exists>s1 s2. process_events trials s es1 = Inr s1
           \<and> handle_event trials now now' s1 e = Inr (s2, False)
           \<and> process_events trials s2 es2 = Inr s'"
  using assms
proof (induction es1 arbitrary: s)
  case Nil
  from Nil.prems(1) obtain s2 brk where
    h: "handle_event trials now now' s e = Inr (s2, brk)"
    and rest: "(if brk then Inr s2 else process_events trials s2 es2) = Inr s'"
    by (auto split: sum.splits)
  have "running s2"
  proof (cases brk)
    case True
    with rest Nil.prems(2) show ?thesis by simp
  next
    case False
    with rest have "process_events trials s2 es2 = Inr s'" by simp
    from process_events_running [OF this Nil.prems(2)] show ?thesis .
  qed
  from handle_event_running [OF h this] have "\<not> brk" by simp
  with h rest show ?case by simp
next
  case (Cons a es1)
  obtain e0 t0 t0' where a: "a = (e0, t0, t0')" by (cases a)
  from Cons.prems(1) a obtain s0 brk where
    h: "handle_event trials t0 t0' s e0 = Inr (s0, brk)"
    and rest: "(if brk then Inr s0
                else process_events trials s0 (es1 @ (e, now, now') # es2)) = Inr s'"
    by (auto split: sum.splits)
  have "running s0"
  proof (cases brk)
    case True
    with rest Cons.prems(2) show ?thesis by simp
  next
    case False
    with rest have "process_events trials s0 (es1 @ (e, now, now') # es2) = Inr s'" by simp
    from process_events_running [OF this Cons.prems(2)] show ?thesis .
  qed
  from handle_event_running [OF h this] have nb: "\<not> brk" by simp
  with rest have "process_events trials s0 (es1 @ (e, now, now') # es2) = Inr s'" by simp
  from Cons.IH [OF this Cons.prems(2)] obtain s1 s2 where
    "process_events trials s0 es1 = Inr s1"
    "handle_event trials now now' s1 e = Inr (s2, False)"
    "process_events trials s2 es2 = Inr s'"
    by blast
  with h nb a show ?case by simp
qed

lemma run_frames_running:
  "run_frames trials s fs = Inr s' \<Longrightarrow> running s' \<Longrightarrow> running s"
proof (induction fs arbitrary: s)
  case Nil
  then show ?case by simp
next
  case (Cons f fs)
  show ?case
  proof (cases "running s")
    case True
    then show ?thesis .
  next
    case False
    with Cons.prems show ?thesis by simp
  qed
qed

lemma run_frames_split:
  assumes "run_frames trials s (fs1 @ f # fs2) = Inr s'" and "running s'"
  shows "\<exists>s1 s2 s3. run_frames trials s fs1 = Inr s1 \<and> running s1
           \<and> process_events trials s1 f = Inr s2 \<and> render s2 = Inr s3
           \<and> run_frames trials s3 fs2 = Inr s'"
  using assms
proof (induction fs1 arbitrary: s)
  case Nil
  from run_frames_running [OF Nil.prems(1) Nil.prems(2)] have r: "running s" .
  with Nil.prems(1) show ?case by (auto split: sum.splits)
next
  case (Cons g fs1)
  from run_frames_running [OF Cons.prems(1) Cons.prems(2)] have r: "running s" .
  with Cons.prems(1) obtain t1 t2 where
    p: "process_events trials s g = Inr t1" and d: "render t1 = Inr t2"
    and rest: "run_frames trials t2 (fs1 @ f # fs2) = Inr s'"
    by (auto split: sum.splits)
  from Cons.IH [OF rest Cons.prems(2)] obtain s1 s2 s3 where
    "run_frames trials t2 fs1 = Inr s1" "running s1"
    "process_events trials s1 f = Inr s2" "render s2 = Inr s3"
    "run_frames trials s3 fs2 = Inr s'"
    by blast
  with r p d show ?case by simp
qed

lemma run_frames_zero_kept:
  "run_frames trials s fs = Inr s' \<Longrightarrow>
   \<forall>f \<in> set fs. \<forall>x \<in> set f. \<forall>pos. fst x \<noteq> MOUSEMOTION pos \<Longrightarrow>
   response_rot_x s = 0 \<and> response_rot_y s = 0 \<Longrightarrow>
   response_rot_x s' = 0 \<and> response_rot_y s' = 0"
proof (induction fs arbitrary: s)
  case Nil
  then show ?case by simp
next
  case (Cons f fs)
  show ?case
  proof (cases "running s")
    case True
    with Cons.prems(1) obtain s1 s2 where p: "process_events trials s f = Inr s1"
      and d: "render s1 = Inr s2"
      and r: "run_frames trials s2 fs = Inr s'"
      by (auto split: sum.splits)
    from Cons.prems(2) have nf: "\<forall>x \<in> set f. \<forall>pos. fst x \<noteq> MOUSEMOTION pos" by simp
    from process_events_zero_kept [OF p nf Cons.prems(3)]
    have "response_rot_x s1 = 0 \<and> response_rot_y s1 = 0" .
    with render_Inr [OF d] have z: "response_rot_x s2 = 0 \<and> response_rot_y s2 = 0" by simp
    from Cons.IH [OF r _ z] Cons.prems(2) show ?thesis by simp
  next
    case False
    with Cons.prems show ?thesis by simp
  qed
qed

lemma init_session_zero:
  "init_session trials t0 = Inr s0 \<Longrightarrow> response_rot_x s0 = 0 \<and> response_rot_y s0 = 0"
  by (auto simp add: init_session_def split: list.splits)

lemma response_starts_trial_at_zero:
  assumes "run_frames trials s0 (fs @ (es @ (KEYDOWN k, now, now') # es2) # fs2) = Inr s"
    and "running s" and "k = K_s \<or> k = K_d"
    and "\<forall>x \<in> set es2. \<forall>pos. fst x \<noteq> MOUSEMOTION pos"
    and "\<forall>f \<in> set fs2. \<forall>x \<in> set f. \<forall>pos. fst x \<noteq> MOUSEMOTION pos"
  shows "response_rot_x s = 0 \<and> response_rot_y s = 0"
proof -
  from run_frames_split [OF assms(1,2)] obtain s1 s2 s3 where
    p: "process_events trials s1 (es @ (KEYDOWN k, now, now') # es2) = Inr s2"
    and d: "render s2 = Inr s3" and r: "run_frames trials s3 fs2 = Inr s"
    by blast
  from run_frames_running [OF r assms(2)] have "running s3" .
  with render_Inr [OF d] have run2: "running s2" by simp
  from process_events_split [OF p run2] obtain u1 u2 where
    h: "handle_event trials now now' u1 (KEYDOWN k) = Inr (u2, False)"
    and p2: "process_events trials u2 es2 = Inr s2"
    by blast
  from h assms(3) have resp: "respond trials now now' (k = K_d) u1 = Inr (u2, False)" by auto
  have "Suc (current_trial u1) < length trials"
  proof (rule ccontr)
    assume "\<not> Suc (current_trial u1) < length trials"
    then have "length trials \<le> Suc (current_trial u1)" by simp
    from respond_last [OF resp this] show False by simp
  qed
  from respond_next [OF resp this]
  have "response_rot_x u2 = 0 \<and> response_rot_y u2 = 0" by simp
  from process_events_zero_kept [OF p2 assms(4) this]
  have "response_rot_x s2 = 0 \<and> response_rot_y s2 = 0" .
  with render_Inr [OF d] have "response_rot_x s3 = 0 \<and> response_rot_y s3 = 0" by simp
  from run_frames_zero_kept [OF r assms(5) this] show ?thesis .
qed

section \<open>Trial planning\<close>

text \<open>
  Claim C3. \<^verbatim>\<open>random.shuffle\<close> rearranges its list, and the two counts are not negative.
  Then the plan has \<open>min (n_with_rotation + n_without_rotation) (length stimuli)\<close> trials,
  the trial at index \<open>i\<close> has rotation enabled exactly when \<open>i < n_with_rotation\<close>, and
  when at least \<open>n_with_rotation + n_without_rotation\<close> stimuli have a non-null
  \<^verbatim>\<open>is_mirror\<close> the plan has exactly that many trials. The stimuli available are those of
  the whole collection: the fallback draws from it.
\<close>

theorem generate_trial_set_plan:
  assumes "\<And>xs. mset (shuffle xs) = mset xs"
    and "0 \<le> n_with_rotation" and "0 \<le> n_without_rotation"
  shows "length (generate_trial_set shuffle stimuli n_with_rotation n_without_rotation) =
           min (nat (n_with_rotation + n_without_rotation)) (length stimuli)
       \<and> (\<forall>i < length (generate_trial_set shuffle stimuli n_with_rotation n_without_rotation).
            trial.rotation_enabled
              (generate_trial_set shuffle stimuli n_with_rotation n_without_rotation ! i)
            = (i < nat n_with_rotation))
       \<and> (n_with_rotation + n_without_rotation \<le> int (length (filter is_valid stimuli)) \<longrightarrow>
            length (generate_trial_set shuffle stimuli n_with_rotation n_without_rotation) =
              nat n_with_rotation + nat n_without_rotation)"
proof -
  let ?ts = "generate_trial_set shuffle stimuli n_with_rotation n_without_rotation"
  have total: "0 \<le> n_with_rotation + n_without_rotation" using assms(2,3) by simp
  have len: "length ?ts = min (nat (n_with_rotation + n_without_rotation)) (length stimuli)"
    by (rule length_generate_trial_set [OF assms(1) total])
  have flags: "\<forall>i < length ?ts. trial.rotation_enabled (?ts ! i) = (i < nat n_with_rotation)"
  proof (intro allI impI)
    fix i assume "i < length ?ts"
    then have "?ts ! i = make_trial n_with_rotation (i, map trial.stimulus ?ts ! i)"
      by (rule nth_generate_trial_set)
    then show "trial.rotation_enabled (?ts ! i) = (i < nat n_with_rotation)"
      using assms(2) by (auto simp add: make_trial_def)
  qed
  have enough: "length ?ts = nat n_with_rotation + nat n_without_rotation"
    if "n_with_rotation + n_without_rotation \<le> int (length (filter is_valid stimuli))"
  proof -
    have "length (filter is_valid stimuli) \<le> length stimuli" by simp
    with that have "nat (n_with_rotation + n_without_rotation) \<le> length stimuli" by linarith
    with len show ?thesis using assms(2,3) by (simp add: nat_add_distrib)
  qed
  from len flags enough show ?thesis by blast
qed

theorem generate_trial_set_plan_witness:
  "(\<forall>xs :: stimulus list. mset (rev xs) = mset xs) \<and> (0::int) \<le> 2 \<and> (0::int) \<le> 1
   \<and> (2::int) + 1 \<le> int (length (filter is_valid
        [[(''id'', JStr ''a''), (''is_mirror'', JBool True)],
         [(''id'', JStr ''b'')],
         [(''id'', JStr ''c''), (''is_mirror'', JBool False)],
         [(''id'', JStr ''d''), (''is_mirror'', JBool True)]]))
   \<and> map trial.rotation_enabled (generate_trial_set rev
        [[(''id'', JStr ''a''), (''is_mirror'', JBool True)],
         [(''id'', JStr ''b'')],
         [(''id'', JStr ''c''), (''is_mirror'', JBool False)],
         [(''id'', JStr ''d''), (''is_mirror'', JBool True)]] 2 1) = [True, True, False]
   \<and> length (generate_trial_set rev
        [[(''id'', JStr ''a''), (''is_mirror'', JBool True)],
         [(''id'', JStr ''b'')],
         [(''id'', JStr ''c''), (''is_mirror'', JBool False)],
         [(''id'', JStr ''d''), (''is_mirror'', JBool True)]] 2 1) = nat 2 + nat 1"
  using generate_trial_set_plan [of rev 2 1
        "[[(''id'', JStr ''a''), (''is_mirror'', JBool True)],
         [(''id'', JStr ''b'')],
         [(''id'', JStr ''c''), (''is_mirror'', JBool False)],
         [(''id'', JStr ''d''), (''is_mirror'', JBool True)]]"]
  by (simp add: generate_trial_set_def is_valid_def dict_get_def py_slice_to_def make_trial_def
        enumerate_eq_zip upt_rec)

text \<open>
  Claim C4, as stated, fails: the shuffle comes after the fallback, so the first stimuli of
  the unfiltered collection are rearranged like any other plan. Here no stimulus is labelled,
  two trials are asked for and the generator reverses the list.
\<close>

theorem fallback_order_counterexample:
  "int (length (filter is_valid [[(''id'', JStr ''a'')], [(''id'', JStr ''b''), (''is_mirror'', JNull)]])) < 1 + 1
   \<and> mset (rev [[(''id'', JStr ''a'')], [(''id'', JStr ''b''), (''is_mirror'', JNull)]])
       = mset [[(''id'', JStr ''a'')], [(''id'', JStr ''b''), (''is_mirror'', JNull)]]
   \<and> map trial.stimulus
        (generate_trial_set rev [[(''id'', JStr ''a'')], [(''id'', JStr ''b''), (''is_mirror'', JNull)]] 1 1)
       = [[(''id'', JStr ''b''), (''is_mirror'', JNull)], [(''id'', JStr ''a'')]]
   \<and> map trial.stimulus
        (generate_trial_set rev [[(''id'', JStr ''a'')], [(''id'', JStr ''b''), (''is_mirror'', JNull)]] 1 1)
       \<noteq> take 2 [[(''id'', JStr ''a'')], [(''id'', JStr ''b''), (''is_mirror'', JNull)]]"
  by (simp add: stimuli_of_generate_trial_set is_valid_def dict_get_def py_slice_to_def)

text \<open>
  Claim C4, amended. When fewer than \<open>n_with_rotation + n_without_rotation\<close> stimuli have a
  non-null \<^verbatim>\<open>is_mirror\<close>, the trials are built from the first
  \<open>n_with_rotation + n_without_rotation\<close> stimuli of the unfiltered collection, in the
  order the shuffle gives them: the same stimuli, each as often, in a shuffled order.
\<close>

theorem generate_trial_set_fallback:
  assumes "\<And>xs. mset (shuffle xs) = mset xs"
    and "int (length (filter is_valid stimuli)) < n_with_rotation + n_without_rotation"
  shows "map trial.stimulus (generate_trial_set shuffle stimuli n_with_rotation n_without_rotation)
           = shuffle (take (nat (n_with_rotation + n_without_rotation)) stimuli)
       \<and> mset (map trial.stimulus
                 (generate_trial_set shuffle stimuli n_with_rotation n_without_rotation))
           = mset (take (nat (n_with_rotation + n_without_rotation)) stimuli)"
  using fallback_stimuli [OF assms] assms(1) by simp

theorem generate_trial_set_fallback_witness:
  "(\<forall>xs :: stimulus list. mset (rev xs) = mset xs)
   \<and> int (length (filter is_valid
        [[(''id'', JStr ''a'')], [(''id'', JStr ''b''), (''is_mirror'', JNull)],
         [(''id'', JStr ''c''), (''is_mirror'', JBool True)]])) < 1 + 1
   \<and> map trial.stimulus (generate_trial_set rev
        [[(''id'', JStr ''a'')], [(''id'', JStr ''b''), (''is_mirror'', JNull)],
         [(''id'', JStr ''c''), (''is_mirror'', JBool True)]] 1 1)
       = [[(''id'', JStr ''b''), (''is_mirror'', JNull)], [(''id'', JStr ''a'')]]"
  using generate_trial_set_fallback [of rev
        "[[(''id'', JStr ''a'')], [(''id'', JStr ''b''), (''is_mirror'', JNull)],
         [(''id'', JStr ''c''), (''is_mirror'', JBool True)]]" 1 1]
  by (simp add: is_valid_def dict_get_def)

section \<open>Angular disparity\<close>

text \<open>
  Claim C5, as stated, fails on floats. The square of a small accumulator underflows to
  zero, so the result is \<open>0\<close> although an accumulator is not (here \<open>2\<close> to the power
  \<open>-600\<close>); the square of a large one overflows, so the result is an infinity and not the
  norm; and a NaN accumulator gives NaN, which is not \<open>\<ge> 0\<close>.
\<close>

theorem disparity_underflow_counterexample:
  "(1 / 2 ^ 600 :: real) \<noteq> 0
   \<and> calculate_angular_disparity (0::int) (PyFloat (Finite (1 / 2 ^ 600))) (PyFloat (Finite 0))
       = Inr (Finite 0)
   \<and> calculate_angular_disparity (0::int) (PyFloat (Finite (2 ^ 600))) (PyFloat (Finite 0))
       = Inr (Infinity False)
   \<and> calculate_angular_disparity (0::int) (PyFloat NaN) (PyFloat (Finite 0)) = Inr NaN"
proof -
  have m1: "(1 / 2 ^ 600 :: real) * (1 / 2 ^ 600) = 1 / 2 ^ 1200"
    by (simp add: power_add [symmetric])
  have m2: "(2 ^ 600 :: real) * 2 ^ 600 = 2 ^ 1200"
    by (simp add: power_add [symmetric])
  have z: "round_double 0 = Finite 0" by (simp add: round_double_def)
  have a: "calculate_angular_disparity (0::int) (PyFloat (Finite (1 / 2 ^ 600))) (PyFloat (Finite 0))
       = Inr (Finite 0)"
    unfolding calculate_angular_disparity_def
    by (simp only: py_mul.simps float_mul.simps m1 round_double_underflow sum.case
          mult_zero_left z py_add.simps float_add.simps add_0_left math_sqrt.simps
          float_sqrt.simps real_sqrt_zero) simp
  have b: "calculate_angular_disparity (0::int) (PyFloat (Finite (2 ^ 600))) (PyFloat (Finite 0))
       = Inr (Infinity False)"
    unfolding calculate_angular_disparity_def
    by (simp only: py_mul.simps float_mul.simps m2 round_double_overflow sum.case
          mult_zero_left z py_add.simps float_add.simps math_sqrt.simps
          float_sqrt.simps) simp
  have c: "calculate_angular_disparity (0::int) (PyFloat NaN) (PyFloat (Finite 0)) = Inr NaN"
    by (simp add: calculate_angular_disparity_def z)
  from a b c show ?thesis by simp
qed

text \<open>
  Claim C5, amended. The result never depends on the initial-angle argument, and on two
  floats the function does not raise and its result is NaN or not negative. On the
  accumulators a session produces, multiples of \<open>0.5\<close> of magnitude below \<open>2 ^ 25\<close>, the two
  squares and their sum are exact, so the result is the double nearest to
  \<open>sqrt (rot_x\<^sup>2 + rot_y\<^sup>2)\<close>: a finite value, not negative, and zero exactly when both
  accumulators are zero.
\<close>

theorem calculate_angular_disparity_norm:
  "calculate_angular_disparity a x y = calculate_angular_disparity b x y
   \<and> (\<exists>d. calculate_angular_disparity a (PyFloat fx) (PyFloat fy) = Inr d
          \<and> (d = NaN \<or> ge_zero d))
   \<and> (\<bar>k\<bar> < 2 ^ 26 \<and> \<bar>l\<bar> < 2 ^ 26 \<longrightarrow>
        calculate_angular_disparity a
            (PyFloat (Finite (real_of_int k / 2))) (PyFloat (Finite (real_of_int l / 2)))
          = Inr (round_double (sqrt ((real_of_int k / 2)\<^sup>2 + (real_of_int l / 2)\<^sup>2)))
      \<and> (\<exists>v\<ge>0. round_double (sqrt ((real_of_int k / 2)\<^sup>2 + (real_of_int l / 2)\<^sup>2)) = Finite v
            \<and> (v = 0 \<longleftrightarrow> k = 0 \<and> l = 0)))"
proof (intro conjI impI)
  show "calculate_angular_disparity a x y = calculate_angular_disparity b x y"
    by (simp add: calculate_angular_disparity_def)
  show "\<exists>d. calculate_angular_disparity a (PyFloat fx) (PyFloat fy) = Inr d
          \<and> (d = NaN \<or> ge_zero d)"
    by (rule disparity_of_floats)
next
  assume small: "\<bar>k\<bar> < 2 ^ 26 \<and> \<bar>l\<bar> < 2 ^ 26"
  let ?s = "(real_of_int k / 2)\<^sup>2 + (real_of_int l / 2)\<^sup>2"
  have sq: "n * n < 2 ^ 52" if "\<bar>n\<bar> < 2 ^ 26" for n :: int
  proof -
    have "n * n = \<bar>n\<bar> * \<bar>n\<bar>" by (simp add: abs_mult_self_eq)
    also have "\<dots> \<le> (2 ^ 26 - 1) * (2 ^ 26 - 1)"
      using that by (intro mult_mono) simp_all
    also have "\<dots> < 2 ^ 52" by simp
    finally show ?thesis .
  qed
  have kk: "k * k < 2 ^ 52" and ll: "l * l < 2 ^ 52" using small sq by simp_all
  have xk: "real_of_int k / 2 * (real_of_int k / 2) = real_of_int (k * k) / 4" by simp
  have xl: "real_of_int l / 2 * (real_of_int l / 2) = real_of_int (l * l) / 4" by simp
  have rk: "round_double (real_of_int (k * k) / 4) = Finite (real_of_int (k * k) / 4)"
    using kk by (intro round_double_quarter) simp_all
  have rl: "round_double (real_of_int (l * l) / 4) = Finite (real_of_int (l * l) / 4)"
    using ll by (intro round_double_quarter) simp_all
  have sum: "real_of_int (k * k) / 4 + real_of_int (l * l) / 4
               = real_of_int (k * k + l * l) / 4" by simp
  have rs: "round_double (real_of_int (k * k + l * l) / 4)
              = Finite (real_of_int (k * k + l * l) / 4)"
    using kk ll by (intro round_double_quarter) simp_all
  have s_eq: "real_of_int (k * k + l * l) / 4 = ?s"
    by (simp add: power2_eq_square)
  have s_nonneg: "0 \<le> ?s" by simp
  show "calculate_angular_disparity a
            (PyFloat (Finite (real_of_int k / 2))) (PyFloat (Finite (real_of_int l / 2)))
          = Inr (round_double (sqrt ?s))"
  proof -
    have "calculate_angular_disparity a
            (PyFloat (Finite (real_of_int k / 2))) (PyFloat (Finite (real_of_int l / 2)))
          = float_sqrt (Finite (real_of_int (k * k + l * l) / 4))"
      unfolding calculate_angular_disparity_def
      by (simp only: py_mul.simps float_mul.simps xk xl rk rl sum.case py_add.simps
            float_add.simps sum rs math_sqrt.simps)
    also have "\<dots> = Inr (round_double (sqrt ?s))"
    proof -
      have "\<not> ?s < 0" using s_nonneg by linarith
      then show ?thesis unfolding s_eq by simp
    qed
    finally show ?thesis .
  qed
  show "\<exists>v\<ge>0. round_double (sqrt ?s) = Finite v \<and> (v = 0 \<longleftrightarrow> k = 0 \<and> l = 0)"
  proof (cases "k = 0 \<and> l = 0")
    case True
    then show ?thesis by (simp add: round_double_def)
  next
    case False
    then have "k * k \<noteq> 0 \<or> l * l \<noteq> 0" by simp
    moreover have "0 \<le> k * k" and "0 \<le> l * l" by simp_all
    ultimately have "1 \<le> k * k + l * l" by linarith
    then have one: "1 \<le> real_of_int (k * k + l * l)" by linarith
    then have lo: "1 / 4 \<le> ?s" unfolding s_eq [symmetric] by simp
    have "sqrt (1 / 4) \<le> sqrt ?s" using lo by (rule real_sqrt_le_mono)
    moreover have "sqrt (1 / 4) = 1 / 2"
      by (simp add: real_sqrt_divide)
    ultimately have slo: "1 / 2 \<le> sqrt ?s" by simp
    have "k * k + l * l < 2 ^ 53" using kk ll by simp
    then have "real_of_int (k * k + l * l) < 2 ^ 53"
      by (metis of_int_less_numeral_power_cancel_iff)
    moreover have "real_of_int (k * k + l * l) / 4 \<le> real_of_int (k * k + l * l)"
      using one by simp
    moreover have "(2::real) ^ 53 \<le> 2 ^ 120" by (rule power_increasing) simp_all
    ultimately have "real_of_int (k * k + l * l) / 4 < 2 ^ 120" by linarith
    then have "?s < 2 ^ 120" unfolding s_eq .
    then have "sqrt ?s < sqrt (2 ^ 120)" by (rule real_sqrt_less_mono)
    moreover have "sqrt ((2::real) ^ 120) = 2 ^ 60"
      using real_sqrt_abs [of "(2::real) ^ 60"] by (simp add: power_mult [symmetric] power2_eq_square power_add [symmetric])
    ultimately have shi: "sqrt ?s < 2 ^ 60" by simp
    from round_double_positive [OF slo shi] obtain v where
      "0 < v" "round_double (sqrt ?s) = Finite v" by blast
    with False show ?thesis by (intro exI [of _ v]) simp
  qed
qed

theorem calculate_angular_disparity_norm_witness:
  "\<bar>6::int\<bar> < 2 ^ 26 \<and> \<bar>8::int\<bar> < 2 ^ 26
   \<and> calculate_angular_disparity (JInt 40) (PyFloat (Finite 3)) (PyFloat (Finite 4))
       = Inr (Finite 5)"
proof -
  have small: "\<bar>6::int\<bar> < 2 ^ 26 \<and> \<bar>8::int\<bar> < 2 ^ 26" by simp
  have "(real_of_int 6 / 2)\<^sup>2 + (real_of_int 8 / 2)\<^sup>2 = 5\<^sup>2" by simp
  then have root: "sqrt ((real_of_int 6 / 2)\<^sup>2 + (real_of_int 8 / 2)\<^sup>2) = 5"
    by (simp only: real_sqrt_abs)
  have five: "round_double 5 = Finite 5"
    using round_double_quarter [of 20] by simp
  from calculate_angular_disparity_norm [of "JInt 40" _ _ "JInt 40" _ _ 6 8] small
  have "calculate_angular_disparity (JInt 40)
            (PyFloat (Finite (real_of_int 6 / 2))) (PyFloat (Finite (real_of_int 8 / 2)))
          = Inr (round_double (sqrt ((real_of_int 6 / 2)\<^sup>2 + (real_of_int 8 / 2)\<^sup>2)))"
    by blast
  then have "calculate_angular_disparity (JInt 40) (PyFloat (Finite 3)) (PyFloat (Finite 4))
       = Inr (Finite 5)"
    unfolding root five by simp
  with small show ?thesis by simp
qed

section \<open>Responses\<close>

text \<open>
  Claim C1. When the stimulus on display has an \<^verbatim>\<open>id\<close> and a frame has been drawn (so
  \<^verbatim>\<open>rotation['y']\<close> can be read), a response key records exactly one result. Its
  \<^verbatim>\<open>is_correct\<close> is Python's \<^verbatim>\<open>not is_mirror\<close> for \<^verbatim>\<open>K_s\<close> (same) and \<^verbatim>\<open>is_mirror\<close> itself
  for \<^verbatim>\<open>K_d\<close> (different); on a boolean \<^verbatim>\<open>is_mirror\<close> that gives the four combinations:
  same is correct exactly on a pair that is not mirrored, different exactly on a mirrored
  one.
\<close>

theorem response_is_correct:
  assumes "map_of (trial.stimulus (current_trial_data s)) ''id'' = Some sid"
    and "rotation s = Some rot" and "subscript rot ''y'' = Inr ry"
    and "k = K_s \<or> k = K_d"
  shows "\<exists>s' brk r.
           handle_event trials now now' s (KEYDOWN k) = Inr (s', brk)
         \<and> results s' = results s @ [r]
         \<and> TrialResult.is_mirror r = trial.is_mirror (current_trial_data s)
         \<and> user_response r = (k = K_d)
         \<and> (k = K_s \<longrightarrow>
              is_correct r = JBool (\<not> truthy (trial.is_mirror (current_trial_data s))))
         \<and> (k = K_d \<longrightarrow> is_correct r = trial.is_mirror (current_trial_data s))
         \<and> (\<forall>m. trial.is_mirror (current_trial_data s) = JBool m \<longrightarrow>
              is_correct r = JBool (if k = K_s then \<not> m else m))"
proof -
  from respond_total [OF assms(1-3)] obtain s' brk
    where r: "respond trials now now' (k = K_d) s = Inr (s', brk)" by blast
  from assms(4) have h: "handle_event trials now now' s (KEYDOWN k) = Inr (s', brk)"
    using r by auto
  from respond_Inr [OF r] obtain res where
    "results s' = results s @ [res]"
    "TrialResult.is_mirror res = trial.is_mirror (current_trial_data s)"
    "user_response res = (k = K_d)"
    "is_correct res = (if k = K_d then trial.is_mirror (current_trial_data s)
                       else JBool (\<not> truthy (trial.is_mirror (current_trial_data s))))"
    by force
  with h assms(4) show ?thesis
    by (intro exI [of _ s'] exI [of _ brk] exI [of _ res]) auto
qed

theorem response_is_correct_witness:
  "map_of (trial.stimulus (current_trial_data
       \<lparr>current_trial = 0, results = [], start_time = 1,
        response_rot_x = 0, response_rot_y = 0, mouse_dragging = False, last_mouse_pos = None,
        current_trial_data =
          \<lparr>trial.stimulus = [(''id'', JStr ''a'')], trial.rotation_enabled = False,
           trial.is_mirror = JBool True\<rparr>,
        rotation_enabled = False, rotation = Some (JObj [(''y'', JInt 40)]),
        running = True\<rparr>)) ''id'' = Some (JStr ''a'')
   \<and> subscript (JObj [(''y'', JInt 40)]) ''y'' = Inr (JInt 40)
   \<and> (\<exists>s' brk r.
         handle_event [] 3 3
           \<lparr>current_trial = 0, results = [], start_time = 1,
            response_rot_x = 0, response_rot_y = 0, mouse_dragging = False,
            last_mouse_pos = None,
            current_trial_data =
              \<lparr>trial.stimulus = [(''id'', JStr ''a'')], trial.rotation_enabled = False,
               trial.is_mirror = JBool True\<rparr>,
            rotation_enabled = False, rotation = Some (JObj [(''y'', JInt 40)]),
            running = True\<rparr> (KEYDOWN K_s) = Inr (s', brk)
       \<and> results s' = [r] \<and> is_correct r = JBool False)"
proof -
  let ?s = "\<lparr>current_trial = 0, results = [], start_time = 1,
        response_rot_x = 0, response_rot_y = 0, mouse_dragging = False, last_mouse_pos = None,
        current_trial_data =
          \<lparr>trial.stimulus = [(''id'', JStr ''a'')], trial.rotation_enabled = False,
           trial.is_mirror = JBool True\<rparr>,
        rotation_enabled = False, rotation = Some (JObj [(''y'', JInt 40)]),
        running = True\<rparr>"
  have a: "map_of (trial.stimulus (current_trial_data ?s)) ''id'' = Some (JStr ''a'')" by simp
  have b: "rotation ?s = Some (JObj [(''y'', JInt 40)])" by simp
  have c: "subscript (JObj [(''y'', JInt 40)]) ''y'' = Inr (JInt 40)" by simp
  have d: "K_s = K_s \<or> K_s = K_d" by simp
  from response_is_correct [OF a b c d, of "[]" 3 3] obtain s' brk r where
    "handle_event [] 3 3 ?s (KEYDOWN K_s) = Inr (s', brk)"
    and "results s' = results ?s @ [r]"
    and "K_s = K_s \<longrightarrow>
           is_correct r = JBool (\<not> truthy (trial.is_mirror (current_trial_data ?s)))"
    by blast
  then have "handle_event [] 3 3 ?s (KEYDOWN K_s) = Inr (s', brk)
      \<and> results s' = [r] \<and> is_correct r = JBool False"
    by simp
  then have "\<exists>s' brk r. handle_event [] 3 3 ?s (KEYDOWN K_s) = Inr (s', brk)
      \<and> results s' = [r] \<and> is_correct r = JBool False"
    by blast
  with a c show ?thesis by blast
qed

text \<open>
  Claim C10. A trial built from a stimulus whose \<^verbatim>\<open>is_mirror\<close> key is present with value
  null has \<^verbatim>\<open>is_mirror\<close> null, and the default \<open>False\<close> is used only when the key is
  absent. Under the fallback each of the first \<open>n_with_rotation + n_without_rotation\<close>
  stimuli of the collection becomes a trial, so such a stimulus among them reaches the
  session; when enough stimuli are labelled no trial has a null \<^verbatim>\<open>is_mirror\<close>. A response
  different on a trial with null \<^verbatim>\<open>is_mirror\<close> records a result whose \<^verbatim>\<open>is_correct\<close> is
  null.
\<close>

theorem null_is_mirror_propagates:
  "(\<forall>t \<in> set (generate_trial_set shuffle stimuli n_with_rotation n_without_rotation).
      (map_of (trial.stimulus t) ''is_mirror'' = Some JNull \<longrightarrow> trial.is_mirror t = JNull)
    \<and> (map_of (trial.stimulus t) ''is_mirror'' = None \<longrightarrow> trial.is_mirror t = JBool False))
   \<and> ((\<forall>xs. mset (shuffle xs) = mset xs)
        \<and> int (length (filter is_valid stimuli)) < n_with_rotation + n_without_rotation \<longrightarrow>
      (\<forall>x \<in> set (take (nat (n_with_rotation + n_without_rotation)) stimuli).
         \<exists>t \<in> set (generate_trial_set shuffle stimuli n_with_rotation n_without_rotation).
           trial.stimulus t = x))
   \<and> ((\<forall>xs. mset (shuffle xs) = mset xs)
        \<and> n_with_rotation + n_without_rotation \<le> int (length (filter is_valid stimuli)) \<longrightarrow>
      (\<forall>t \<in> set (generate_trial_set shuffle stimuli n_with_rotation n_without_rotation).
         trial.is_mirror t \<noteq> JNull))
   \<and> (trial.is_mirror (current_trial_data s) = JNull
        \<and> handle_event trials now now' s (KEYDOWN K_d) = Inr (s', brk) \<longrightarrow>
      (\<exists>r. results s' = results s @ [r] \<and> is_correct r = JNull
           \<and> TrialResult.is_mirror r = JNull \<and> user_response r))"
proof -
  let ?plan = "generate_trial_set shuffle stimuli n_with_rotation n_without_rotation"
  have plan:
    "\<forall>t \<in> set ?plan.
      (map_of (trial.stimulus t) ''is_mirror'' = Some JNull \<longrightarrow> trial.is_mirror t = JNull)
    \<and> (map_of (trial.stimulus t) ''is_mirror'' = None \<longrightarrow> trial.is_mirror t = JBool False)"
    by (simp add: is_mirror_of_trial dict_get_def)
  have reach: "\<forall>x \<in> set (take (nat (n_with_rotation + n_without_rotation)) stimuli).
         \<exists>t \<in> set ?plan. trial.stimulus t = x"
    if perm: "\<forall>xs. mset (shuffle xs) = mset xs"
      and few: "int (length (filter is_valid stimuli)) < n_with_rotation + n_without_rotation"
  proof -
    from perm have p: "\<And>xs. mset (shuffle xs) = mset xs" by simp
    have "set (map trial.stimulus ?plan)
            = set (shuffle (take (nat (n_with_rotation + n_without_rotation)) stimuli))"
      by (simp only: fallback_stimuli [OF p few])
    also have "\<dots> = set (take (nat (n_with_rotation + n_without_rotation)) stimuli)"
      using p by (metis set_mset_mset)
    finally show ?thesis by force
  qed
  have labelled: "\<forall>t \<in> set ?plan. trial.is_mirror t \<noteq> JNull"
    if perm: "\<forall>xs. mset (shuffle xs) = mset xs"
      and enough: "n_with_rotation + n_without_rotation \<le> int (length (filter is_valid stimuli))"
  proof
    fix t assume t: "t \<in> set ?plan"
    from perm have p: "\<And>xs. mset (shuffle xs) = mset xs" by simp
    from labelled_stimuli [OF p enough t] have "is_valid (trial.stimulus t)" .
    then show "trial.is_mirror t \<noteq> JNull"
      unfolding is_mirror_of_trial [OF t]
      by (auto simp add: is_valid_def dict_get_def split: option.splits)
  qed
  have resp: "\<exists>r. results s' = results s @ [r] \<and> is_correct r = JNull
           \<and> TrialResult.is_mirror r = JNull \<and> user_response r"
    if "trial.is_mirror (current_trial_data s) = JNull"
      and "handle_event trials now now' s (KEYDOWN K_d) = Inr (s', brk)"
  proof -
    from that(2) have "respond trials now now' True s = Inr (s', brk)" by simp
    from respond_Inr [OF this] that(1) show ?thesis by force
  qed
  from plan reach labelled resp show ?thesis by blast
qed

theorem null_is_mirror_propagates_witness:
  "int (length (filter is_valid [[(''id'', JStr ''a''), (''is_mirror'', JNull)]])) < 1 + 0
   \<and> generate_trial_set rev [[(''id'', JStr ''a''), (''is_mirror'', JNull)]] 1 0
       = [\<lparr>trial.stimulus = [(''id'', JStr ''a''), (''is_mirror'', JNull)],
           trial.rotation_enabled = True, trial.is_mirror = JNull\<rparr>]
   \<and> map is_correct (results (fst (projr (handle_event
         [\<lparr>trial.stimulus = [(''id'', JStr ''a''), (''is_mirror'', JNull)],
           trial.rotation_enabled = True, trial.is_mirror = JNull\<rparr>] 3 3
         \<lparr>current_trial = 0, results = [], start_time = 1,
          response_rot_x = 0, response_rot_y = 0, mouse_dragging = False,
          last_mouse_pos = None,
          current_trial_data =
            \<lparr>trial.stimulus = [(''id'', JStr ''a''), (''is_mirror'', JNull)],
             trial.rotation_enabled = True, trial.is_mirror = JNull\<rparr>,
          rotation_enabled = True,
          rotation = Some (JObj [(''x'', JInt 0), (''y'', JInt 0), (''z'', JInt 0)]),
          running = True\<rparr> (KEYDOWN K_d))))) = [JNull]
   \<and> (1::int) + 0 \<le> int (length (filter is_valid
        [[(''id'', JStr ''b''), (''is_mirror'', JBool True)]]))
   \<and> map trial.is_mirror
        (generate_trial_set rev [[(''id'', JStr ''b''), (''is_mirror'', JBool True)]] 1 0)
       = [JBool True]"
  using null_is_mirror_propagates [of rev "[[(''id'', JStr ''b''), (''is_mirror'', JBool True)]]"
      1 0]
    null_is_mirror_propagates [of rev "[[(''id'', JStr ''a''), (''is_mirror'', JNull)]]" 1 0
      "\<lparr>current_trial = 0, results = [], start_time = 1,
          response_rot_x = 0, response_rot_y = 0, mouse_dragging = False,
          last_mouse_pos = None,
          current_trial_data =
            \<lparr>trial.stimulus = [(''id'', JStr ''a''), (''is_mirror'', JNull)],
             trial.rotation_enabled = True, trial.is_mirror = JNull\<rparr>,
          rotation_enabled = True,
          rotation = Some (JObj [(''x'', JInt 0), (''y'', JInt 0), (''z'', JInt 0)]),
          running = True\<rparr>"
      "[\<lparr>trial.stimulus = [(''id'', JStr ''a''), (''is_mirror'', JNull)],
           trial.rotation_enabled = True, trial.is_mirror = JNull\<rparr>]" 3 3]
  by (simp add: generate_trial_set_def is_valid_def dict_get_def py_slice_to_def make_trial_def
        enumerate_eq_zip respond_def calculate_angular_disparity_def round_double_def)

section \<open>Rotation accumulators\<close>

text \<open>
  Claim C6, as stated, fails at the last trial: the loop is left by \<^verbatim>\<open>break\<close> before the
  two assignments that zero the accumulators. A plan of one trial with rotation enabled; a
  first frame without events; then a press of the left button, a move of ten pixels right
  and four down, and the response same: the session has ended without an error, with one
  result, and the accumulators still read \<open>(2, 5)\<close>.
\<close>

theorem final_response_keeps_accumulators_counterexample:
  "\<not> isl (init_session [sample_trial ''a'' False True] 0)
   \<and> \<not> isl (run_frames [sample_trial ''a'' False True]
        (projr (init_session [sample_trial ''a'' False True] 0))
        [[], [(MOUSEBUTTONDOWN 1 (100, 100), 1, 1), (MOUSEMOTION (110, 104), 2, 2),
              (KEYDOWN K_s, 3, 3)]])
   \<and> length (results (projr (run_frames [sample_trial ''a'' False True]
        (projr (init_session [sample_trial ''a'' False True] 0))
        [[], [(MOUSEBUTTONDOWN 1 (100, 100), 1, 1), (MOUSEMOTION (110, 104), 2, 2),
              (KEYDOWN K_s, 3, 3)]]))) = 1
   \<and> \<not> running (projr (run_frames [sample_trial ''a'' False True]
        (projr (init_session [sample_trial ''a'' False True] 0))
        [[], [(MOUSEBUTTONDOWN 1 (100, 100), 1, 1), (MOUSEMOTION (110, 104), 2, 2),
              (KEYDOWN K_s, 3, 3)]]))
   \<and> response_rot_x (projr (run_frames [sample_trial ''a'' False True]
        (projr (init_session [sample_trial ''a'' False True] 0))
        [[], [(MOUSEBUTTONDOWN 1 (100, 100), 1, 1), (MOUSEMOTION (110, 104), 2, 2),
              (KEYDOWN K_s, 3, 3)]])) = 2
   \<and> response_rot_y (projr (run_frames [sample_trial ''a'' False True]
        (projr (init_session [sample_trial ''a'' False True] 0))
        [[], [(MOUSEBUTTONDOWN 1 (100, 100), 1, 1), (MOUSEMOTION (110, 104), 2, 2),
              (KEYDOWN K_s, 3, 3)]])) = 5"
proof -
  obtain d where d: "calculate_angular_disparity (JInt 40)
      (PyFloat (Finite 2)) (PyFloat (Finite 5)) = Inr d"
    using disparity_of_floats [of "JInt 40" "Finite 2" "Finite 5"] by blast
  have drawn: "draw_figure_from_data sample_figure
      (JObj [(''x'', JInt 0), (''y'', JInt 40), (''z'', JInt 0)]) = Inr ()"
    by (simp add: draw_figure_from_data_def sample_figure_def list_index_def)
  show ?thesis
    by (simp add: init_session_def sample_trial_def sample_stimulus_def render_def
          dict_get_def respond_def Let_def drawn d)
qed

text \<open>
  Claim C6, amended. The accumulators are zero when the session starts. A response to a
  trial that is not the last appends the result, whose disparity is computed from the
  accumulators as they were, then moves to the next trial with both accumulators zero; the
  response to the last trial appends the result and ends the session with the accumulators
  as they were. Every event other than a pointer move and a response leaves the
  accumulators alone, and so does the rendering. Hence, over a whole session: as long as
  no pointer move has been handled the accumulators are zero, and in a session that is
  still running they are zero from a response on until the next pointer move, whatever
  came before. Each trial starts from \<open>(0, 0)\<close> and keeps it until its first drag.
\<close>

theorem accumulators_reset:
  "(init_session trials t0 = Inr s0 \<longrightarrow> response_rot_x s0 = 0 \<and> response_rot_y s0 = 0)
   \<and> ((k = K_s \<or> k = K_d) \<and> handle_event trials now now' s (KEYDOWN k) = Inr (s', brk) \<longrightarrow>
        (\<exists>r. results s' = results s @ [r]
            \<and> calculate_angular_disparity a
                 (PyFloat (Finite (response_rot_x s))) (PyFloat (Finite (response_rot_y s)))
                = Inr (disparity r))
      \<and> (Suc (current_trial s) < length trials \<longrightarrow>
            \<not> brk \<and> current_trial s' = Suc (current_trial s)
          \<and> current_trial_data s' = trials ! Suc (current_trial s)
          \<and> response_rot_x s' = 0 \<and> response_rot_y s' = 0)
      \<and> (length trials \<le> Suc (current_trial s) \<longrightarrow>
            brk \<and> \<not> running s'
          \<and> response_rot_x s' = response_rot_x s \<and> response_rot_y s' = response_rot_y s))
   \<and> ((\<forall>pos. e \<noteq> MOUSEMOTION pos) \<and> e \<noteq> KEYDOWN K_s \<and> e \<noteq> KEYDOWN K_d
        \<and> handle_event trials now now' s e = Inr (s'', brk') \<longrightarrow>
        response_rot_x s'' = response_rot_x s \<and> response_rot_y s'' = response_rot_y s)
   \<and> (render s = Inr s3 \<longrightarrow>
        response_rot_x s3 = response_rot_x s \<and> response_rot_y s3 = response_rot_y s)
   \<and> (init_session trials t0 = Inr s0 \<and> run_frames trials s0 fs = Inr s4
        \<and> (\<forall>f \<in> set fs. \<forall>x \<in> set f. \<forall>pos. fst x \<noteq> MOUSEMOTION pos) \<longrightarrow>
        response_rot_x s4 = 0 \<and> response_rot_y s4 = 0)
   \<and> (init_session trials t0 = Inr s0
        \<and> run_frames trials s0 (fs1 @ (es1 @ (KEYDOWN k, now, now') # es2) # fs2) = Inr s5
        \<and> running s5 \<and> (k = K_s \<or> k = K_d)
        \<and> (\<forall>x \<in> set es2. \<forall>pos. fst x \<noteq> MOUSEMOTION pos)
        \<and> (\<forall>f \<in> set fs2. \<forall>x \<in> set f. \<forall>pos. fst x \<noteq> MOUSEMOTION pos) \<longrightarrow>
        response_rot_x s5 = 0 \<and> response_rot_y s5 = 0)"
proof (intro conjI impI)
  assume "init_session trials t0 = Inr s0"
  then show "response_rot_x s0 = 0" and "response_rot_y s0 = 0"
    using init_session_zero by blast+
next
  assume a: "(k = K_s \<or> k = K_d) \<and> handle_event trials now now' s (KEYDOWN k) = Inr (s', brk)"
  then have r: "respond trials now now' (k = K_d) s = Inr (s', brk)" by auto
  from respond_Inr [OF r] obtain res and ry :: json where
    "results s' = results s @ [res]"
    "calculate_angular_disparity ry
       (PyFloat (Finite (response_rot_x s))) (PyFloat (Finite (response_rot_y s)))
     = Inr (disparity res)"
    by force
  then show "\<exists>r. results s' = results s @ [r]
            \<and> calculate_angular_disparity a
                 (PyFloat (Finite (response_rot_x s))) (PyFloat (Finite (response_rot_y s)))
                = Inr (disparity r)"
    by (auto simp add: calculate_angular_disparity_def)
  {
    assume n: "Suc (current_trial s) < length trials"
    from respond_next [OF r n]
    show "\<not> brk" and "current_trial s' = Suc (current_trial s)"
      and "current_trial_data s' = trials ! Suc (current_trial s)"
      and "response_rot_x s' = 0" and "response_rot_y s' = 0"
      by simp_all
  }
  {
    assume l: "length trials \<le> Suc (current_trial s)"
    from respond_last [OF r l]
    show "brk" and "\<not> running s'" and "response_rot_x s' = response_rot_x s"
      and "response_rot_y s' = response_rot_y s"
      by simp_all
  }
next
  assume b: "(\<forall>pos. e \<noteq> MOUSEMOTION pos) \<and> e \<noteq> KEYDOWN K_s \<and> e \<noteq> KEYDOWN K_d
        \<and> handle_event trials now now' s e = Inr (s'', brk')"
  then have "response_rot_x s'' = response_rot_x s \<and> response_rot_y s'' = response_rot_y s"
  proof (cases e)
    case (KEYDOWN key)
    with b show ?thesis by (cases key) auto
  qed (auto split: if_splits)
  then show "response_rot_x s'' = response_rot_x s" and "response_rot_y s'' = response_rot_y s"
    by simp_all
next
  assume "render s = Inr s3"
  from render_Inr [OF this]
  show "response_rot_x s3 = response_rot_x s" and "response_rot_y s3 = response_rot_y s"
    by simp_all
next
  assume c: "init_session trials t0 = Inr s0 \<and> run_frames trials s0 fs = Inr s4
        \<and> (\<forall>f \<in> set fs. \<forall>x \<in> set f. \<forall>pos. fst x \<noteq> MOUSEMOTION pos)"
  then have "response_rot_x s4 = 0 \<and> response_rot_y s4 = 0"
    using run_frames_zero_kept [of trials s0 fs s4] init_session_zero [of trials t0 s0]
    by blast
  then show "response_rot_x s4 = 0" and "response_rot_y s4 = 0" by simp_all
next
  assume d: "init_session trials t0 = Inr s0
        \<and> run_frames trials s0 (fs1 @ (es1 @ (KEYDOWN k, now, now') # es2) # fs2) = Inr s5
        \<and> running s5 \<and> (k = K_s \<or> k = K_d)
        \<and> (\<forall>x \<in> set es2. \<forall>pos. fst x \<noteq> MOUSEMOTION pos)
        \<and> (\<forall>f \<in> set fs2. \<forall>x \<in> set f. \<forall>pos. fst x \<noteq> MOUSEMOTION pos)"
  then have "response_rot_x s5 = 0 \<and> response_rot_y s5 = 0"
    using response_starts_trial_at_zero [of trials s0 fs1 es1 k now now' es2 fs2 s5]
    by blast
  then show "response_rot_x s5 = 0" and "response_rot_y s5 = 0" by simp_all
qed

theorem accumulators_reset_witness:
  "\<not> isl (init_session [sample_trial ''a'' False True, sample_trial ''b'' True False] 0)
   \<and> \<not> isl (run_frames [sample_trial ''a'' False True, sample_trial ''b'' True False]
        (projr (init_session [sample_trial ''a'' False True, sample_trial ''b'' True False] 0))
        ([[]] @ ([(MOUSEBUTTONDOWN 1 (100, 100), 1, 1), (MOUSEMOTION (108, 106), 2, 2)]
                  @ (KEYDOWN K_s, 3, 4) # [(MOUSEBUTTONUP 1 (108, 106), 5, 5)]) # [[]]))
   \<and> running (projr (run_frames [sample_trial ''a'' False True, sample_trial ''b'' True False]
        (projr (init_session [sample_trial ''a'' False True, sample_trial ''b'' True False] 0))
        ([[]] @ ([(MOUSEBUTTONDOWN 1 (100, 100), 1, 1), (MOUSEMOTION (108, 106), 2, 2)]
                  @ (KEYDOWN K_s, 3, 4) # [(MOUSEBUTTONUP 1 (108, 106), 5, 5)]) # [[]])))
   \<and> current_trial (projr (run_frames
        [sample_trial ''a'' False True, sample_trial ''b'' True False]
        (projr (init_session [sample_trial ''a'' False True, sample_trial ''b'' True False] 0))
        ([[]] @ ([(MOUSEBUTTONDOWN 1 (100, 100), 1, 1), (MOUSEMOTION (108, 106), 2, 2)]
                  @ (KEYDOWN K_s, 3, 4) # [(MOUSEBUTTONUP 1 (108, 106), 5, 5)]) # [[]]))) = 1
   \<and> map disparity (results (projr (run_frames
        [sample_trial ''a'' False True, sample_trial ''b'' True False]
        (projr (init_session [sample_trial ''a'' False True, sample_trial ''b'' True False] 0))
        ([[]] @ ([(MOUSEBUTTONDOWN 1 (100, 100), 1, 1), (MOUSEMOTION (108, 106), 2, 2)]
                  @ (KEYDOWN K_s, 3, 4) # [(MOUSEBUTTONUP 1 (108, 106), 5, 5)]) # [[]]))))
       = [Finite 5]
   \<and> response_rot_x (projr (run_frames
        [sample_trial ''a'' False True, sample_trial ''b'' True False]
        (projr (init_session [sample_trial ''a'' False True, sample_trial ''b'' True False] 0))
        ([[]] @ ([(MOUSEBUTTONDOWN 1 (100, 100), 1, 1), (MOUSEMOTION (108, 106), 2, 2)]
                  @ (KEYDOWN K_s, 3, 4) # [(MOUSEBUTTONUP 1 (108, 106), 5, 5)]) # [[]]))) = 0
   \<and> response_rot_y (projr (run_frames
        [sample_trial ''a'' False True, sample_trial ''b'' True False]
        (projr (init_session [sample_trial ''a'' False True, sample_trial ''b'' True False] 0))
        ([[]] @ ([(MOUSEBUTTONDOWN 1 (100, 100), 1, 1), (MOUSEMOTION (108, 106), 2, 2)]
                  @ (KEYDOWN K_s, 3, 4) # [(MOUSEBUTTONUP 1 (108, 106), 5, 5)]) # [[]]))) = 0"
proof -
  let ?trials = "[sample_trial ''a'' False True, sample_trial ''b'' True False]"
  let ?frames = "[[]] @ ([(MOUSEBUTTONDOWN 1 (100, 100), 1, 1), (MOUSEMOTION (108, 106), 2, 2)]
                  @ (KEYDOWN K_s, 3, 4) # [(MOUSEBUTTONUP 1 (108, 106), 5, 5)]) # [[]]"
  have nine: "round_double 9 = Finite 9" using round_double_quarter [of 36] by simp
  have sixteen: "round_double 16 = Finite 16" using round_double_quarter [of 64] by simp
  have twentyfive: "round_double 25 = Finite 25" using round_double_quarter [of 100] by simp
  have five: "round_double 5 = Finite 5" using round_double_quarter [of 20] by simp
  have root: "sqrt 25 = 5" using real_sqrt_abs [of 5] by simp
  have d: "calculate_angular_disparity (JInt 40) (PyFloat (Finite 3)) (PyFloat (Finite 4))
      = Inr (Finite 5)"
    by (simp add: calculate_angular_disparity_def nine sixteen twentyfive root five)
  have drawn: "draw_figure_from_data sample_figure
      (JObj [(''x'', JInt 0), (''y'', JInt 40), (''z'', JInt 0)]) = Inr ()"
    by (simp add: draw_figure_from_data_def sample_figure_def list_index_def)
  have init: "\<not> isl (init_session ?trials 0)"
    by (simp add: init_session_def)
  have run: "\<not> isl (run_frames ?trials (projr (init_session ?trials 0)) ?frames)
      \<and> running (projr (run_frames ?trials (projr (init_session ?trials 0)) ?frames))
      \<and> current_trial (projr (run_frames ?trials (projr (init_session ?trials 0)) ?frames)) = 1
      \<and> map disparity
           (results (projr (run_frames ?trials (projr (init_session ?trials 0)) ?frames)))
         = [Finite 5]"
    by (simp add: init_session_def sample_trial_def sample_stimulus_def render_def
          dict_get_def respond_def Let_def drawn d)
  from init run have eqs:
    "init_session ?trials 0 = Inr (projr (init_session ?trials 0))"
    "run_frames ?trials (projr (init_session ?trials 0)) ?frames
       = Inr (projr (run_frames ?trials (projr (init_session ?trials 0)) ?frames))"
    by (simp_all add: sum.collapse(2))
  have quiet: "(\<forall>x \<in> set [(MOUSEBUTTONUP 1 ((108::int), (106::int)), (5::real), (5::real))].
                  \<forall>pos. fst x \<noteq> MOUSEMOTION pos)
             \<and> (\<forall>f \<in> set [[] :: (event \<times> real \<times> real) list].
                  \<forall>x \<in> set f. \<forall>pos. fst x \<noteq> MOUSEMOTION pos)"
    by simp
  note session = accumulators_reset [where trials = ?trials and ?t0.0 = 0
      and ?s0.0 = "projr (init_session ?trials 0)" and k = K_s and now = 3 and now' = 4
      and ?fs1.0 = "[[]]"
      and ?es1.0 = "[(MOUSEBUTTONDOWN 1 (100, 100), 1, 1), (MOUSEMOTION (108, 106), 2, 2)]"
      and ?es2.0 = "[(MOUSEBUTTONUP 1 (108, 106), 5, 5)]" and ?fs2.0 = "[[]]"
      and ?s5.0 = "projr (run_frames ?trials (projr (init_session ?trials 0)) ?frames)",
      THEN conjunct2, THEN conjunct2, THEN conjunct2, THEN conjunct2, THEN conjunct2]
  have key: "K_s = K_s \<or> K_s = K_d" by simp
  from run have alive:
    "running (projr (run_frames ?trials (projr (init_session ?trials 0)) ?frames))" by blast
  have zero:
    "response_rot_x (projr (run_frames ?trials (projr (init_session ?trials 0)) ?frames)) = 0
      \<and> response_rot_y (projr (run_frames ?trials (projr (init_session ?trials 0)) ?frames)) = 0"
    by (rule session [THEN mp]) (intro conjI eqs alive key quiet [THEN conjunct1]
          quiet [THEN conjunct2])
  from init run zero show ?thesis by (intro conjI) (elim conjE, assumption)+
qed

text \<open>
  Claim C7. In a session state that satisfies the invariant, a pointer move never fails and
  never leaves the event loop; the trial index, the result log, the trial on display, the
  flags and the clock are unchanged. While a drag is active on a trial with rotation
  enabled it adds half the horizontal pointer delta to \<^verbatim>\<open>response_rot_y\<close> and half the
  vertical delta to \<^verbatim>\<open>response_rot_x\<close>, the deltas being measured from the last pointer
  position, which is moved along; otherwise the state is unchanged.
\<close>

theorem pointer_move_frame:
  assumes "session_inv s"
  shows "\<exists>s'. handle_event trials now now' s (MOUSEMOTION pos) = Inr (s', False)
     \<and> current_trial s' = current_trial s \<and> results s' = results s
     \<and> current_trial_data s' = current_trial_data s
     \<and> session.rotation_enabled s' = session.rotation_enabled s
     \<and> running s' = running s \<and> start_time s' = start_time s
     \<and> mouse_dragging s' = mouse_dragging s \<and> rotation s' = rotation s
     \<and> (mouse_dragging s \<and> trial.rotation_enabled (current_trial_data s) \<longrightarrow>
          (\<exists>prev. last_mouse_pos s = Some prev
             \<and> response_rot_y s' = response_rot_y s + real_of_int (fst pos - fst prev) * 0.5
             \<and> response_rot_x s' = response_rot_x s + real_of_int (snd pos - snd prev) * 0.5
             \<and> last_mouse_pos s' = Some pos))
     \<and> (\<not> (mouse_dragging s \<and> trial.rotation_enabled (current_trial_data s)) \<longrightarrow> s' = s)"
proof (cases "mouse_dragging s \<and> session.rotation_enabled s")
  case True
  with assms obtain prev where prev: "last_mouse_pos s = Some prev"
    by (auto simp add: session_inv_def)
  with True assms show ?thesis
    by (simp add: session_inv_def Let_def)
next
  case False
  with assms show ?thesis
    by (auto simp add: session_inv_def)
qed

theorem pointer_move_frame_witness:
  "session_inv
     \<lparr>current_trial = 0, results = [], start_time = 1,
      response_rot_x = 0, response_rot_y = 0, mouse_dragging = True,
      last_mouse_pos = Some (100, 100),
      current_trial_data =
        \<lparr>trial.stimulus = [(''id'', JStr ''a'')], trial.rotation_enabled = True,
         trial.is_mirror = JBool True\<rparr>,
      rotation_enabled = True, rotation = None, running = True\<rparr>
   \<and> handle_event [] 2 2
     \<lparr>current_trial = 0, results = [], start_time = 1,
      response_rot_x = 0, response_rot_y = 0, mouse_dragging = True,
      last_mouse_pos = Some (100, 100),
      current_trial_data =
        \<lparr>trial.stimulus = [(''id'', JStr ''a'')], trial.rotation_enabled = True,
         trial.is_mirror = JBool True\<rparr>,
      rotation_enabled = True, rotation = None, running = True\<rparr> (MOUSEMOTION (110, 96))
     = Inr (\<lparr>current_trial = 0, results = [], start_time = 1,
      response_rot_x = - 2, response_rot_y = 5, mouse_dragging = True,
      last_mouse_pos = Some (110, 96),
      current_trial_data =
        \<lparr>trial.stimulus = [(''id'', JStr ''a'')], trial.rotation_enabled = True,
         trial.is_mirror = JBool True\<rparr>,
      rotation_enabled = True, rotation = None, running = True\<rparr>, False)"
  using pointer_move_frame [of
     "\<lparr>current_trial = 0, results = [], start_time = 1,
      response_rot_x = 0, response_rot_y = 0, mouse_dragging = True,
      last_mouse_pos = Some (100, 100),
      current_trial_data =
        \<lparr>trial.stimulus = [(''id'', JStr ''a'')], trial.rotation_enabled = True,
         trial.is_mirror = JBool True\<rparr>,
      rotation_enabled = True, rotation = None, running = True\<rparr>" "[]" 2 2 "(110, 96)"]
  by (simp add: session_inv_def)

section \<open>Degenerate fits\<close>

lemma partition_fit_small:
  "length angles < 2 \<Longrightarrow>
     partition_fit pearsonr linregress angles rtimes = Inr ((0, 1), (0, 0, 0, 1, 0))"
  by (simp add: partition_fit_def)

lemma regression_or_default_small:
  "length angles < 2 \<Longrightarrow> regression_or_default linregress angles rtimes = Inr (0, 0, 0, 1)"
  by (simp add: regression_or_default_def)

lemma analyze_ade_correct_small:
  assumes "result_dicts \<noteq> []"
    and "length (filter (\<lambda>r. truthy (is_correct r)) result_dicts) < 2"
    and "analyze_ade pearsonr linregress result_dicts = Inr out"
  shows "\<exists>fit_incorrect. out = Some (((0, 1), (0, 0, 0, 1, 0)), fit_incorrect)"
  using assms
  by (auto simp add: analyze_ade_def Let_def partition_fit_small split: sum.splits)

lemma analyze_ade_incorrect_small:
  assumes "result_dicts \<noteq> []"
    and "length (filter (\<lambda>r. \<not> truthy (is_correct r)) result_dicts) < 2"
    and "analyze_ade pearsonr linregress result_dicts = Inr out"
  shows "\<exists>fit_correct. out = Some (fit_correct, ((0, 1), (0, 0, 0, 1, 0)))"
  using assms
  by (auto simp add: analyze_ade_def Let_def partition_fit_small split: sum.splits)

lemma analyze_ade_both_small:
  assumes "result_dicts \<noteq> []"
    and "length (filter (\<lambda>r. truthy (is_correct r)) result_dicts) < 2"
    and "length (filter (\<lambda>r. \<not> truthy (is_correct r)) result_dicts) < 2"
  shows "analyze_ade pearsonr linregress result_dicts =
           Inr (Some (((0, 1), (0, 0, 0, 1, 0)), ((0, 1), (0, 0, 0, 1, 0))))"
  using assms by (simp add: analyze_ade_def Let_def partition_fit_small)

lemma make_plot_small:
  assumes "make_plot linregress data = Inr (fit_c, fit_i)"
  shows "(length (filter (\<lambda>r. truthy (is_correct r)) data) < 2 \<longrightarrow> fit_c = (0, 0, 0, 1))
       \<and> (length (filter (\<lambda>r. \<not> truthy (is_correct r)) data) < 2 \<longrightarrow> fit_i = (0, 0, 0, 1))"
  using assms
  by (auto simp add: make_plot_def Let_def regression_or_default_small split: sum.splits)

lemma make_plot_both_small:
  assumes "length (filter (\<lambda>r. truthy (is_correct r)) data) < 2"
    and "length (filter (\<lambda>r. \<not> truthy (is_correct r)) data) < 2"
  shows "make_plot linregress data = Inr ((0, 0, 0, 1), (0, 0, 0, 1))"
  using assms by (simp add: make_plot_def Let_def regression_or_default_small)

lemma analyze_ade_automatically_groups:
  assumes "analyze_ade_automatically linregress results_dict = Inr (with_rotation, without_rotation)"
  shows "(filter (\<lambda>r. TrialResult.rotation_enabled r) results_dict = [] \<longrightarrow>
            with_rotation = None)
       \<and> (filter (\<lambda>r. TrialResult.rotation_enabled r) results_dict \<noteq> [] \<longrightarrow>
            (\<exists>fits. with_rotation = Some fits
               \<and> make_plot linregress
                    (filter (\<lambda>r. TrialResult.rotation_enabled r) results_dict) = Inr fits))
       \<and> (filter (\<lambda>r. \<not> TrialResult.rotation_enabled r) results_dict = [] \<longrightarrow>
            without_rotation = None)
       \<and> (filter (\<lambda>r. \<not> TrialResult.rotation_enabled r) results_dict \<noteq> [] \<longrightarrow>
            (\<exists>fits. without_rotation = Some fits
               \<and> make_plot linregress
                    (filter (\<lambda>r. \<not> TrialResult.rotation_enabled r) results_dict) = Inr fits))"
proof (cases "results_dict = []")
  case True
  with assms show ?thesis by (simp add: analyze_ade_automatically_def)
next
  case False
  with assms show ?thesis
    by (cases "make_plot linregress (filter (\<lambda>r. TrialResult.rotation_enabled r) results_dict)";
        cases "make_plot linregress (filter (\<lambda>r. \<not> TrialResult.rotation_enabled r) results_dict)")
       (auto simp add: analyze_ade_automatically_def Let_def split: if_splits)
qed

text \<open>
  Claim C2, as stated, fails where the analyses compute no fit at all. On an empty result
  list both partitions hold no sample and \<^verbatim>\<open>analyze_ade\<close> returns before any fit. In the
  automatic analysis a session whose only trial had rotation enabled leaves both partitions
  of the trials without rotation empty, and \<^verbatim>\<open>make_plot\<close> is not called for them.
\<close>

theorem empty_partitions_counterexample:
  "analyze_ade (\<lambda>x y. Inl ValueError) (\<lambda>x y. Inl ValueError) [] = Inr None
   \<and> filter (\<lambda>r. \<not> TrialResult.rotation_enabled r)
        [\<lparr>trial_number = 1, stimulus_id = JStr ''a'', is_mirror = JBool False,
          user_response = False, response_time = 2, is_correct = JBool True,
          rotation_enabled = True, disparity = Finite 0, initial_angle = JInt 40\<rparr>] = []
   \<and> analyze_ade_automatically (\<lambda>x y. Inl ValueError)
        [\<lparr>trial_number = 1, stimulus_id = JStr ''a'', is_mirror = JBool False,
          user_response = False, response_time = 2, is_correct = JBool True,
          rotation_enabled = True, disparity = Finite 0, initial_angle = JInt 40\<rparr>]
       = Inr (Some ((0, 0, 0, 1), (0, 0, 0, 1)), None)"
  by (simp add: analyze_ade_def analyze_ade_automatically_def make_plot_def
        regression_or_default_def)

text \<open>
  Claim C2, amended. Wherever an analysis computes the fit of a partition with fewer than
  two samples, the fit is the degenerate one (\<open>r = 0\<close>, \<open>p = 1\<close>, slope and intercept
  \<open>0\<close>) and the library is not called for it: in \<^verbatim>\<open>analyze_ade\<close> on a non-empty result
  list, and in \<^verbatim>\<open>make_plot\<close>, which the automatic analysis calls for each non-empty
  rotation group. When both partitions are that small the analysis does not raise. No fit
  is computed on an empty result list, nor for an empty rotation group.
\<close>

theorem degenerate_fit:
  "(length angles < 2 \<longrightarrow>
       partition_fit pearsonr linregress angles rtimes = Inr ((0, 1), (0, 0, 0, 1, 0))
     \<and> regression_or_default linregress angles rtimes = Inr (0, 0, 0, 1))
   \<and> (result_dicts \<noteq> [] \<and> analyze_ade pearsonr linregress result_dicts = Inr out \<longrightarrow>
        (length (filter (\<lambda>r. truthy (is_correct r)) result_dicts) < 2 \<longrightarrow>
           (\<exists>fit_incorrect. out = Some (((0, 1), (0, 0, 0, 1, 0)), fit_incorrect)))
      \<and> (length (filter (\<lambda>r. \<not> truthy (is_correct r)) result_dicts) < 2 \<longrightarrow>
           (\<exists>fit_correct. out = Some (fit_correct, ((0, 1), (0, 0, 0, 1, 0))))))
   \<and> (result_dicts \<noteq> []
        \<and> length (filter (\<lambda>r. truthy (is_correct r)) result_dicts) < 2
        \<and> length (filter (\<lambda>r. \<not> truthy (is_correct r)) result_dicts) < 2 \<longrightarrow>
        analyze_ade pearsonr linregress result_dicts =
          Inr (Some (((0, 1), (0, 0, 0, 1, 0)), ((0, 1), (0, 0, 0, 1, 0)))))
   \<and> analyze_ade pearsonr linregress [] = Inr None
   \<and> (make_plot linregress data = Inr (fit_c, fit_i) \<longrightarrow>
        (length (filter (\<lambda>r. truthy (is_correct r)) data) < 2 \<longrightarrow> fit_c = (0, 0, 0, 1))
      \<and> (length (filter (\<lambda>r. \<not> truthy (is_correct r)) data) < 2 \<longrightarrow> fit_i = (0, 0, 0, 1)))
   \<and> (length (filter (\<lambda>r. truthy (is_correct r)) data) < 2
        \<and> length (filter (\<lambda>r. \<not> truthy (is_correct r)) data) < 2 \<longrightarrow>
        make_plot linregress data = Inr ((0, 0, 0, 1), (0, 0, 0, 1)))
   \<and> (analyze_ade_automatically linregress results_dict = Inr (with_rotation, without_rotation) \<longrightarrow>
        (filter (\<lambda>r. TrialResult.rotation_enabled r) results_dict = [] \<longrightarrow>
            with_rotation = None)
      \<and> (filter (\<lambda>r. TrialResult.rotation_enabled r) results_dict \<noteq> [] \<longrightarrow>
            (\<exists>fits. with_rotation = Some fits
               \<and> make_plot linregress
                    (filter (\<lambda>r. TrialResult.rotation_enabled r) results_dict) = Inr fits))
      \<and> (filter (\<lambda>r. \<not> TrialResult.rotation_enabled r) results_dict = [] \<longrightarrow>
            without_rotation = None)
      \<and> (filter (\<lambda>r. \<not> TrialResult.rotation_enabled r) results_dict \<noteq> [] \<longrightarrow>
            (\<exists>fits. without_rotation = Some fits
               \<and> make_plot linregress
                    (filter (\<lambda>r. \<not> TrialResult.rotation_enabled r) results_dict) = Inr fits)))"
proof -
  have a: "length angles < 2 \<longrightarrow>
       partition_fit pearsonr linregress angles rtimes = Inr ((0, 1), (0, 0, 0, 1, 0))
     \<and> regression_or_default linregress angles rtimes = Inr (0, 0, 0, 1)"
    by (simp add: partition_fit_small regression_or_default_small)
  have b: "result_dicts \<noteq> [] \<and> analyze_ade pearsonr linregress result_dicts = Inr out \<longrightarrow>
        (length (filter (\<lambda>r. truthy (is_correct r)) result_dicts) < 2 \<longrightarrow>
           (\<exists>fit_incorrect. out = Some (((0, 1), (0, 0, 0, 1, 0)), fit_incorrect)))
      \<and> (length (filter (\<lambda>r. \<not> truthy (is_correct r)) result_dicts) < 2 \<longrightarrow>
           (\<exists>fit_correct. out = Some (fit_correct, ((0, 1), (0, 0, 0, 1, 0)))))"
    using analyze_ade_correct_small analyze_ade_incorrect_small by blast
  have c: "result_dicts \<noteq> []
        \<and> length (filter (\<lambda>r. truthy (is_correct r)) result_dicts) < 2
        \<and> length (filter (\<lambda>r. \<not> truthy (is_correct r)) result_dicts) < 2 \<longrightarrow>
        analyze_ade pearsonr linregress result_dicts =
          Inr (Some (((0, 1), (0, 0, 0, 1, 0)), ((0, 1), (0, 0, 0, 1, 0))))"
    using analyze_ade_both_small by blast
  have d: "analyze_ade pearsonr linregress [] = Inr None"
    by (simp add: analyze_ade_def)
  have e: "make_plot linregress data = Inr (fit_c, fit_i) \<longrightarrow>
        (length (filter (\<lambda>r. truthy (is_correct r)) data) < 2 \<longrightarrow> fit_c = (0, 0, 0, 1))
      \<and> (length (filter (\<lambda>r. \<not> truthy (is_correct r)) data) < 2 \<longrightarrow> fit_i = (0, 0, 0, 1))"
    using make_plot_small by blast
  have f: "length (filter (\<lambda>r. truthy (is_correct r)) data) < 2
        \<and> length (filter (\<lambda>r. \<not> truthy (is_correct r)) data) < 2 \<longrightarrow>
        make_plot linregress data = Inr ((0, 0, 0, 1), (0, 0, 0, 1))"
    using make_plot_both_small by blast
  note g = analyze_ade_automatically_groups [of linregress results_dict with_rotation without_rotation]
  from a b c d e f g show ?thesis by (intro conjI impI) blast+
qed

theorem degenerate_fit_witness:
  "[\<lparr>trial_number = 1, stimulus_id = JStr ''a'', is_mirror = JBool False,
      user_response = False, response_time = 2, is_correct = JBool True,
      rotation_enabled = True, disparity = Finite 0, initial_angle = JInt 40\<rparr>] \<noteq> []
   \<and> length (filter (\<lambda>r. truthy (is_correct r))
        [\<lparr>trial_number = 1, stimulus_id = JStr ''a'', is_mirror = JBool False,
          user_response = False, response_time = 2, is_correct = JBool True,
          rotation_enabled = True, disparity = Finite 0, initial_angle = JInt 40\<rparr>]) < 2
   \<and> length (filter (\<lambda>r. \<not> truthy (is_correct r))
        [\<lparr>trial_number = 1, stimulus_id = JStr ''a'', is_mirror = JBool False,
          user_response = False, response_time = 2, is_correct = JBool True,
          rotation_enabled = True, disparity = Finite 0, initial_angle = JInt 40\<rparr>]) < 2
   \<and> analyze_ade (\<lambda>x y. Inl ValueError) (\<lambda>x y. Inl ValueError)
        [\<lparr>trial_number = 1, stimulus_id = JStr ''a'', is_mirror = JBool False,
          user_response = False, response_time = 2, is_correct = JBool True,
          rotation_enabled = True, disparity = Finite 0, initial_angle = JInt 40\<rparr>]
       = Inr (Some (((0, 1), (0, 0, 0, 1, 0)), ((0, 1), (0, 0, 0, 1, 0))))
   \<and> make_plot (\<lambda>x y. Inl ValueError)
        [\<lparr>trial_number = 1, stimulus_id = JStr ''a'', is_mirror = JBool False,
          user_response = False, response_time = 2, is_correct = JBool True,
          rotation_enabled = True, disparity = Finite 0, initial_angle = JInt 40\<rparr>]
       = Inr ((0, 0, 0, 1), (0, 0, 0, 1))"
proof -
  let ?r = "\<lparr>trial_number = 1, stimulus_id = JStr ''a'', is_mirror = JBool False,
      user_response = False, response_time = 2, is_correct = JBool True,
      rotation_enabled = True, disparity = Finite 0, initial_angle = JInt 40\<rparr>"
  note fit = degenerate_fit [where pearsonr = "\<lambda>x y. Inl ValueError"
      and linregress = "\<lambda>x y. Inl ValueError"
      and result_dicts = "[?r]" and data = "[?r]"]
  have small: "length (filter (\<lambda>r. truthy (is_correct r)) [?r]) < 2"
    "length (filter (\<lambda>r. \<not> truthy (is_correct r)) [?r]) < 2"
    by simp_all
  have "[?r] \<noteq> []
        \<and> length (filter (\<lambda>r. truthy (is_correct r)) [?r]) < 2
        \<and> length (filter (\<lambda>r. \<not> truthy (is_correct r)) [?r]) < 2 \<longrightarrow>
        analyze_ade (\<lambda>x y. Inl ValueError) (\<lambda>x y. Inl ValueError) [?r] =
          Inr (Some (((0, 1), (0, 0, 0, 1, 0)), ((0, 1), (0, 0, 0, 1, 0))))"
    by (rule fit [THEN conjunct2, THEN conjunct2, THEN conjunct1])
  with small have post: "analyze_ade (\<lambda>x y. Inl ValueError) (\<lambda>x y. Inl ValueError) [?r] =
          Inr (Some (((0, 1), (0, 0, 0, 1, 0)), ((0, 1), (0, 0, 0, 1, 0))))"
    by blast
  have "length (filter (\<lambda>r. truthy (is_correct r)) [?r]) < 2
        \<and> length (filter (\<lambda>r. \<not> truthy (is_correct r)) [?r]) < 2 \<longrightarrow>
        make_plot (\<lambda>x y. Inl ValueError) [?r] = Inr ((0, 0, 0, 1), (0, 0, 0, 1))"
    by (rule fit [THEN conjunct2, THEN conjunct2, THEN conjunct2, THEN conjunct2,
          THEN conjunct2, THEN conjunct1])
  with small have auto: "make_plot (\<lambda>x y. Inl ValueError) [?r] = Inr ((0, 0, 0, 1), (0, 0, 0, 1))"
    by blast
  from small post auto show ?thesis by blast
qed

section \<open>Loading and labelling the stimulus file\<close>

lemma load_missing_or_malformed:
  "(fs path = None \<longrightarrow>
      load_stimuli json_load fs path = Inl FileNotFoundError
    \<and> load_all_stimuli json_load fs path = Inl FileNotFoundError)
   \<and> (fs path = Some text \<and> json_load text = None \<longrightarrow>
      load_stimuli json_load fs path = Inl JSONDecodeError
    \<and> load_all_stimuli json_load fs path = Inl JSONDecodeError)
   \<and> (fs path = Some text \<and> json_load text = Some [] \<longrightarrow>
      load_all_stimuli json_load fs path = Inl ValueError
    \<and> load_stimuli json_load fs path = Inr [])
   \<and> (fs path = Some text \<and> json_load text = Some data \<and> data \<noteq> [] \<longrightarrow>
      load_all_stimuli json_load fs path = Inr data
    \<and> load_stimuli json_load fs path = Inr data)"
  by (simp add: load_stimuli_def load_all_stimuli_def)

text \<open>
  Claim C9. Both loaders raise \<^verbatim>\<open>FileNotFoundError\<close> on a missing path and
  \<^verbatim>\<open>JSONDecodeError\<close> on text that does not parse (\<open>load_missing_or_malformed\<close>). On a
  file that holds an empty array \<^verbatim>\<open>load_all_stimuli\<close> raises \<^verbatim>\<open>ValueError\<close>, but
  \<^verbatim>\<open>load_stimuli\<close> returns the empty list, and the session then stops at \<^verbatim>\<open>trials[0]\<close>
  with \<^verbatim>\<open>IndexError\<close>.
\<close>

theorem load_stimuli_empty_list:
  "load_stimuli (\<lambda>text. if text = ''[]'' then Some [] else None)
     [''../stimuli_data.json'' \<mapsto> ''[]''] ''../stimuli_data.json'' = Inr []
   \<and> load_all_stimuli (\<lambda>text. if text = ''[]'' then Some [] else None)
     [''stimuli_data.json'' \<mapsto> ''[]''] ''stimuli_data.json'' = Inl ValueError
   \<and> init_session (generate_trial_set rev [] 10 10) 0 = Inl IndexError"
  by (simp add: load_stimuli_def load_all_stimuli_def init_session_def generate_trial_set_def
        py_slice_to_def)






end
